theory Spec2Isabelle
  imports Complex_Main
begin

section \<open>Distances\<close>

text \<open>
  JavaScript numbers are modelled as real numbers: the arithmetic of
  \<^verbatim>\<open>calculateDistance\<close> is exact here, and neither rounding nor NaN is represented.
  \<^verbatim>\<open>Math.atan2(y, x)\<close> is the angle of the point \<open>(x, y)\<close> in \<open>(-\<pi>, \<pi>]\<close>.
\<close>

definition atan2 :: "real \<Rightarrow> real \<Rightarrow> real" where
  "atan2 y x =
     (if 0 < x then arctan (y / x)
      else if x < 0 then (if 0 \<le> y then arctan (y / x) + pi else arctan (y / x) - pi)
      else if 0 < y then pi / 2
      else if y < 0 then - (pi / 2)
      else 0)"

text \<open>The hook's \<^verbatim>\<open>calculateDistance\<close> (useDangerZoneDetection, lines 19-29).\<close>

definition calculateDistance :: "real \<Rightarrow> real \<Rightarrow> real \<Rightarrow> real \<Rightarrow> real" where
  "calculateDistance lat1 lon1 lat2 lon2 =
     (let R = 6371000;
          dLat = (lat2 - lat1) * pi / 180;
          dLon = (lon2 - lon1) * pi / 180;
          a = sin (dLat / 2) * sin (dLat / 2) +
              cos (lat1 * pi / 180) * cos (lat2 * pi / 180) *
              sin (dLon / 2) * sin (dLon / 2);
          c = 2 * atan2 (sqrt a) (sqrt (1 - a))
      in R * c)"

text \<open>The backend's \<^verbatim>\<open>calculateDistance\<close> (server.js, lines 233-246).\<close>

definition calculateDistance_server :: "real \<Rightarrow> real \<Rightarrow> real \<Rightarrow> real \<Rightarrow> real" where
  "calculateDistance_server lat1 lon1 lat2 lon2 =
     (let R = 6371000;
          phi1 = lat1 * pi / 180;
          phi2 = lat2 * pi / 180;
          dphi = (lat2 - lat1) * pi / 180;
          dlam = (lon2 - lon1) * pi / 180;
          a = sin (dphi / 2) * sin (dphi / 2) +
              cos phi1 * cos phi2 *
              sin (dlam / 2) * sin (dlam / 2);
          c = 2 * atan2 (sqrt a) (sqrt (1 - a))
      in R * c)"

text \<open>
  The distance as the specification words it: latitudes and longitudes converted to
  radians, \<open>a = sin\<^sup>2(\<Delta>\<phi>/2) + cos \<phi>1 \<sqdot> cos \<phi>2 \<sqdot> sin\<^sup>2(\<Delta>\<lambda>/2)\<close> and
  \<open>d = 2R \<sqdot> atan2(\<surd>a, \<surd>(1 - a))\<close> with \<open>R\<close> = 6 371 000 m.
\<close>

definition radians :: "real \<Rightarrow> real" where
  "radians deg = deg * pi / 180"

definition haversine_a :: "real \<Rightarrow> real \<Rightarrow> real \<Rightarrow> real \<Rightarrow> real" where
  "haversine_a phi1 lam1 phi2 lam2 =
     (sin ((phi2 - phi1) / 2))\<^sup>2 + cos phi1 * cos phi2 * (sin ((lam2 - lam1) / 2))\<^sup>2"

definition haversine_spec :: "real \<Rightarrow> real \<Rightarrow> real \<Rightarrow> real \<Rightarrow> real" where
  "haversine_spec lat1 lon1 lat2 lon2 =
     (let a = haversine_a (radians lat1) (radians lon1) (radians lat2) (radians lon2)
      in 2 * 6371000 * atan2 (sqrt a) (sqrt (1 - a)))"


section \<open>The client hook useDangerZoneDetection\<close>

datatype Level = Level_low | Level_medium | Level_high

record DangerZone =
  zone_id :: string
  zone_name :: string
  zone_lat :: real
  zone_lng :: real
  zone_radius :: real
  zone_level :: Level

record UserLocation =
  loc_lat :: real
  loc_lng :: real

text \<open>
  An entry of the list persisted under \<^verbatim>\<open>dangerZoneAlerts\<close>. The id is the
  template \<^verbatim>\<open>${zoneKey}-${Date.now()}\<close>: the key and the clock reading are kept as its two parts.
\<close>

record DangerAlert =
  da_id :: "string \<times> nat"
  da_touristId :: string
  da_username :: string
  da_zoneName :: string
  da_zoneLevel :: Level
  da_timestamp :: nat
  da_location :: UserLocation
  da_type :: string

text \<open>
  The state the hook owns or writes: the two refs and the persisted alert list.
\<close>

record hook_state =
  notifiedZones :: "string set"
  adminNotified :: "string set"
  dangerZoneAlerts :: "DangerAlert list"

text \<open>
  What one run of the effect shows: the entry toast, the exit toast, and the admin
  notification (the record written to storage together with its console line), each
  for the zone it is about.
\<close>

datatype hook_event =
    Toast_Entered DangerZone
  | Toast_Left DangerZone
  | Admin_Alert string DangerZone

definition zoneKey :: "string \<Rightarrow> DangerZone \<Rightarrow> string" where
  "zoneKey userId zone = userId @ ''-'' @ zone_id zone"

definition isInZone :: "UserLocation \<Rightarrow> DangerZone \<Rightarrow> bool" where
  "isInZone userLocation zone =
     (calculateDistance (loc_lat userLocation) (loc_lng userLocation) (zone_lat zone) (zone_lng zone)
        \<le> zone_radius zone)"

text \<open>The body of the \<^verbatim>\<open>forEach\<close> callback (lines 45-98), for one zone.\<close>

definition zone_callback ::
  "UserLocation \<Rightarrow> string \<Rightarrow> string \<Rightarrow> nat \<Rightarrow> DangerZone \<Rightarrow> hook_state
     \<Rightarrow> hook_state \<times> hook_event list" where
  "zone_callback userLocation userId username now zone st =
     (if isInZone userLocation zone \<and> zoneKey userId zone \<notin> notifiedZones st then
        (let st1 = st\<lparr>notifiedZones := insert (zoneKey userId zone) (notifiedZones st)\<rparr>
         in if zoneKey userId zone \<notin> adminNotified st1 then
              (st1\<lparr>adminNotified := insert (zoneKey userId zone) (adminNotified st1),
                   dangerZoneAlerts := dangerZoneAlerts st1 @
                     [\<lparr>da_id = (zoneKey userId zone, now),
                       da_touristId = userId,
                       da_username = username,
                       da_zoneName = zone_name zone,
                       da_zoneLevel = zone_level zone,
                       da_timestamp = now,
                       da_location = userLocation,
                       da_type = ''danger_zone_entry''\<rparr>]\<rparr>,
               [Toast_Entered zone, Admin_Alert userId zone])
            else (st1, [Toast_Entered zone]))
      else if \<not> isInZone userLocation zone \<and> zoneKey userId zone \<in> notifiedZones st then
        (st\<lparr>notifiedZones := notifiedZones st - {zoneKey userId zone}\<rparr>, [Toast_Left zone])
      else (st, []))"

fun forEach_zone ::
  "UserLocation \<Rightarrow> string \<Rightarrow> string \<Rightarrow> nat \<Rightarrow> DangerZone list \<Rightarrow> hook_state
     \<Rightarrow> hook_state \<times> hook_event list" where
  "forEach_zone userLocation userId username now [] st = (st, [])"
| "forEach_zone userLocation userId username now (zone # zones) st =
     (let (st1, ev1) = zone_callback userLocation userId username now zone st;
          (st2, ev2) = forEach_zone userLocation userId username now zones st1
      in (st2, ev1 @ ev2))"

text \<open>
  One run of the effect (lines 40-99): nothing happens without a location; otherwise the
  zone list read from storage is walked in order.
\<close>

record effect_call =
  c_userLocation :: "UserLocation option"
  c_userId :: string
  c_username :: string
  c_now :: nat
  c_dangerZones :: "DangerZone list"

definition useEffect_run :: "effect_call \<Rightarrow> hook_state \<Rightarrow> hook_state \<times> hook_event list" where
  "useEffect_run c st =
     (case c_userLocation c of
        None \<Rightarrow> (st, [])
      | Some userLocation \<Rightarrow>
          forEach_zone userLocation (c_userId c) (c_username c) (c_now c) (c_dangerZones c) st)"

definition clearNotifications :: "hook_state \<Rightarrow> hook_state" where
  "clearNotifications st = st\<lparr>notifiedZones := {}, adminNotified := {}\<rparr>"

text \<open>A session of the hook: the effect run once per call, in order, the events concatenated.\<close>

fun hook_run :: "effect_call list \<Rightarrow> hook_state \<Rightarrow> hook_state \<times> hook_event list" where
  "hook_run [] st = (st, [])"
| "hook_run (c # cs) st =
     (let (st1, ev1) = useEffect_run c st;
          (st2, ev2) = hook_run cs st1
      in (st2, ev1 @ ev2))"

text \<open>The refs start empty (\<^verbatim>\<open>new Set()\<close>).\<close>

definition hook_init :: "DangerAlert list \<Rightarrow> hook_state" where
  "hook_init stored = \<lparr>notifiedZones = {}, adminNotified = {}, dangerZoneAlerts = stored\<rparr>"

text \<open>
  The dashboard calls the hook with the identity of the logged-in user
  (\<^verbatim>\<open>user?.touristId || ''\<close>, \<^verbatim>\<open>user?.username || ''\<close>); the user's status is not passed.
\<close>

datatype UserStatus = Status_safe | Status_alert | Status_danger

record User =
  u_touristId :: string
  u_username :: string
  u_status :: UserStatus

definition dashboard_call ::
  "User option \<Rightarrow> UserLocation option \<Rightarrow> nat \<Rightarrow> DangerZone list \<Rightarrow> effect_call" where
  "dashboard_call user location now zones =
     \<lparr>c_userLocation = location,
      c_userId = (case user of None \<Rightarrow> '''' | Some u \<Rightarrow> u_touristId u),
      c_username = (case user of None \<Rightarrow> '''' | Some u \<Rightarrow> u_username u),
      c_now = now,
      c_dangerZones = zones\<rparr>"


text \<open>
  The transitions of one zone in a trace: its entry and exit toasts. A call evaluates the
  zone for a user when it is made for that user with a location and a zone list, of
  pairwise distinct ids, that holds the zone; it is inside or outside by \<^verbatim>\<open>isInZone\<close>.
\<close>

definition transitions_for :: "DangerZone \<Rightarrow> hook_event list \<Rightarrow> hook_event list" where
  "transitions_for z evs = filter (\<lambda>e. e = Toast_Entered z \<or> e = Toast_Left z) evs"

definition evaluates :: "string \<Rightarrow> DangerZone \<Rightarrow> effect_call \<Rightarrow> bool" where
  "evaluates userId z c =
     (c_userId c = userId \<and> c_userLocation c \<noteq> None \<and> z \<in> set (c_dangerZones c)
      \<and> distinct (map zone_id (c_dangerZones c)))"

definition call_inside :: "DangerZone \<Rightarrow> effect_call \<Rightarrow> bool" where
  "call_inside z c = (case c_userLocation c of None \<Rightarrow> False | Some loc \<Rightarrow> isInZone loc z)"

definition call_outside :: "DangerZone \<Rightarrow> effect_call \<Rightarrow> bool" where
  "call_outside z c = (case c_userLocation c of None \<Rightarrow> False | Some loc \<Rightarrow> \<not> isInZone loc z)"


section \<open>The backend handler POST /api/locations\<close>

text \<open>
  The handler (server.js, lines 157-200) talks to the database through a client. The model
  takes what the database answers as inputs (the outcome of the upsert and the rows of
  \<^verbatim>\<open>danger_zones\<close>) and returns the response together with the requests the handler
  issues, in order. It keeps no state between calls.
\<close>

record location_body =
  b_user_id :: string
  b_tourist_id :: string
  b_lat :: real
  b_lng :: real

record zone_row =
  zr_name :: string
  zr_lat :: real
  zr_lng :: real
  zr_radius :: real
  zr_level :: string

record alert_row =
  ar_user_id :: string
  ar_tourist_id :: string
  ar_username :: string
  ar_status :: string
  ar_alert_type :: string
  ar_lat :: real
  ar_lng :: real
  ar_zone_name :: string
  ar_zone_level :: string

text \<open>The row the upsert returns; only its \<^verbatim>\<open>username\<close> is read, and it may be absent.\<close>

record location_data =
  ld_username :: "string option"

datatype db_request =
    Upsert_user_location string string real real
  | Select_danger_zones
  | Insert_alert alert_row

datatype response =
    Json_success location_data
  | Status_500 string

definition entered_alert :: "location_body \<Rightarrow> location_data \<Rightarrow> zone_row \<Rightarrow> alert_row" where
  "entered_alert body data zone =
     \<lparr>ar_user_id = b_user_id body,
      ar_tourist_id = b_tourist_id body,
      ar_username = (case ld_username data of
                       Some n \<Rightarrow> (if n = [] then ''Unknown'' else n)
                     | None \<Rightarrow> ''Unknown''),
      ar_status = ''danger'',
      ar_alert_type = ''entered_danger_zone'',
      ar_lat = b_lat body,
      ar_lng = b_lng body,
      ar_zone_name = zr_name zone,
      ar_zone_level = zr_level zone\<rparr>"

text \<open>The loop over the zones (lines 178-194).\<close>

fun zone_loop :: "location_body \<Rightarrow> location_data \<Rightarrow> zone_row list \<Rightarrow> db_request list" where
  "zone_loop body data [] = []"
| "zone_loop body data (zone # zones) =
     (if calculateDistance_server (b_lat body) (b_lng body) (zr_lat zone) (zr_lng zone)
           \<le> zr_radius zone
      then Insert_alert (entered_alert body data zone) # zone_loop body data zones
      else zone_loop body data zones)"

definition post_api_locations ::
  "location_body \<Rightarrow> string + location_data \<Rightarrow> zone_row list option
     \<Rightarrow> response \<times> db_request list" where
  "post_api_locations body upsert_result zones_result =
     (let upsert = Upsert_user_location (b_user_id body) (b_tourist_id body) (b_lat body) (b_lng body)
      in case upsert_result of
           Inl error \<Rightarrow> (Status_500 error, [upsert])
         | Inr data \<Rightarrow>
             (Json_success data,
              [upsert, Select_danger_zones] @
              zone_loop body data (case zones_result of None \<Rightarrow> [] | Some zones \<Rightarrow> zones)))"

definition alert_inserts :: "db_request list \<Rightarrow> alert_row list" where
  "alert_inserts reqs = concat (map (\<lambda>r. case r of Insert_alert a \<Rightarrow> [a] | _ \<Rightarrow> []) reqs)"


text \<open>
  Successive requests to the handler, each with what the database answers to it: the
  requests issued over the whole sequence.
\<close>

fun api_session ::
  "(location_body \<times> (string + location_data) \<times> zone_row list option) list \<Rightarrow> db_request list" where
  "api_session [] = []"
| "api_session ((body, upsert_result, zones_result) # rest) =
     snd (post_api_locations body upsert_result zones_result) @ api_session rest"


section \<open>The TouristSafety contract\<close>

text \<open>
  Addresses and the contract's \<^verbatim>\<open>uint256\<close> and \<^verbatim>\<open>int256\<close> values are natural numbers
  and integers; the checked arithmetic of Solidity 0.8 is written out: an operation whose
  result leaves the type's range panics, and a failed \<^verbatim>\<open>require\<close> reverts. A reverted
  call changes nothing.
\<close>

type_synonym address = nat

datatype SafetyStatus = Safe | Alert | Danger

datatype ZoneLevel = Low | Medium | High | Critical

record Tourist =
  t_touristId :: string
  t_username :: string
  t_email :: string
  t_phone :: string
  t_dateOfBirth :: nat
  t_status :: SafetyStatus
  t_registeredAt :: nat
  t_isActive :: bool
  t_lastLatitude :: int
  t_lastLongitude :: int
  t_lastLocationUpdate :: nat

record SolDangerZone =
  z_zoneId :: string
  z_name :: string
  z_latitude :: int
  z_longitude :: int
  z_radius :: nat
  z_level :: ZoneLevel
  z_createdBy :: address
  z_createdAt :: nat
  z_isActive :: bool

record EmergencyAlert =
  a_alertId :: string
  a_tourist :: address
  a_touristId :: string
  a_status :: SafetyStatus
  a_latitude :: int
  a_longitude :: int
  a_zoneName :: string
  a_zoneLevel :: ZoneLevel
  a_timestamp :: nat
  a_isDismissed :: bool

datatype sol_event =
    TouristRegistered address string string nat
  | StatusUpdated address string SafetyStatus SafetyStatus nat
  | LocationUpdated address string int int nat
  | DangerZoneCreated string string int int nat ZoneLevel address
  | DangerZoneUpdated string string nat ZoneLevel
  | DangerZoneRemoved string address
  | EmergencyAlertCreated string address string SafetyStatus nat
  | AlertDismissed string address
  | AdminAdded address address
  | AdminRemoved address address

datatype sol_error = Require string | Panic_arithmetic | Panic_index

record contract =
  owner :: address
  admins :: "address list"
  isAdmin :: "address \<Rightarrow> bool"
  tourists :: "address \<Rightarrow> Tourist"
  touristIdToAddress :: "string \<Rightarrow> address"
  registeredTourists :: "address list"
  dangerZones :: "SolDangerZone list"
  zoneIdToIndex :: "string \<Rightarrow> nat"
  alerts :: "EmergencyAlert list"
  alertCount :: nat
  touristCounter :: nat
  zoneCounter :: nat
  alertCounter :: nat
  events :: "sol_event list"

definition uint256_max :: nat where
  "uint256_max = 2 ^ 256 - 1"

definition checked_uint256 :: "nat \<Rightarrow> nat option" where
  "checked_uint256 n = (if n \<le> uint256_max then Some n else None)"

definition checked_int256 :: "int \<Rightarrow> int option" where
  "checked_int256 x = (if - (2 ^ 255) \<le> x \<and> x < 2 ^ 255 then Some x else None)"

text \<open>The explicit conversion \<^verbatim>\<open>int256(...)\<close> of a \<^verbatim>\<open>uint256\<close> is unchecked: it wraps.\<close>

definition int256_of_uint256 :: "nat \<Rightarrow> int" where
  "int256_of_uint256 n = (if int n < 2 ^ 255 then int n else int n - 2 ^ 256)"

text \<open>
  \<^verbatim>\<open>_uint2str\<close> (lines 614-634): the decimal digits, least significant first, each
  written in front of the ones already there.
\<close>

function uint2str_digits :: "nat \<Rightarrow> string \<Rightarrow> string" where
  "uint2str_digits i bstr =
     (if i = 0 then bstr else uint2str_digits (i div 10) (char_of (48 + i mod 10) # bstr))"
  by pat_completeness auto
termination
  by (relation "measure fst") auto

declare uint2str_digits.simps [simp del]

definition uint2str :: "nat \<Rightarrow> string" where
  "uint2str i = (if i = 0 then ''0'' else uint2str_digits i [])"

definition empty_tourist :: Tourist where
  "empty_tourist =
     \<lparr>t_touristId = [], t_username = [], t_email = [], t_phone = [], t_dateOfBirth = 0,
      t_status = Safe, t_registeredAt = 0, t_isActive = False, t_lastLatitude = 0,
      t_lastLongitude = 0, t_lastLocationUpdate = 0\<rparr>"

definition empty_alert :: EmergencyAlert where
  "empty_alert =
     \<lparr>a_alertId = [], a_tourist = 0, a_touristId = [], a_status = Safe, a_latitude = 0,
      a_longitude = 0, a_zoneName = [], a_zoneLevel = Low, a_timestamp = 0,
      a_isDismissed = False\<rparr>"

definition constructor :: "address \<Rightarrow> contract" where
  "constructor sender =
     \<lparr>owner = sender,
      admins = [sender],
      isAdmin = (\<lambda>_. False)(sender := True),
      tourists = (\<lambda>_. empty_tourist),
      touristIdToAddress = (\<lambda>_. 0),
      registeredTourists = [],
      dangerZones = [],
      zoneIdToIndex = (\<lambda>_. 0),
      alerts = [],
      alertCount = 0,
      touristCounter = 0,
      zoneCounter = 0,
      alertCounter = 0,
      events = []\<rparr>"

definition onlyOwner :: "address \<Rightarrow> contract \<Rightarrow> bool" where
  "onlyOwner sender st = (sender = owner st)"

definition onlyAdmin :: "address \<Rightarrow> contract \<Rightarrow> bool" where
  "onlyAdmin sender st = (isAdmin st sender \<or> sender = owner st)"

definition onlyRegisteredTourist :: "address \<Rightarrow> contract \<Rightarrow> bool" where
  "onlyRegisteredTourist sender st = t_isActive (tourists st sender)"

subsection \<open>Admin management\<close>

definition addAdmin :: "address \<Rightarrow> address \<Rightarrow> contract \<Rightarrow> sol_error + contract" where
  "addAdmin sender admin st =
     (if \<not> onlyOwner sender st then Inl (Require ''Only owner can perform this action'')
      else if admin = 0 then Inl (Require ''Invalid address'')
      else if isAdmin st admin then Inl (Require ''Already an admin'')
      else Inr (st\<lparr>isAdmin := (isAdmin st)(admin := True),
                   admins := admins st @ [admin],
                   events := events st @ [AdminAdded admin sender]\<rparr>))"

text \<open>The loop of \<^verbatim>\<open>removeAdmin\<close>: the first matching slot takes the last entry, which is popped.\<close>

fun first_index :: "address \<Rightarrow> address list \<Rightarrow> nat option" where
  "first_index a [] = None"
| "first_index a (x # xs) =
     (if x = a then Some 0 else map_option Suc (first_index a xs))"

definition removeAdmin :: "address \<Rightarrow> address \<Rightarrow> contract \<Rightarrow> sol_error + contract" where
  "removeAdmin sender admin st =
     (if \<not> onlyOwner sender st then Inl (Require ''Only owner can perform this action'')
      else if admin = owner st then Inl (Require ''Cannot remove owner'')
      else if \<not> isAdmin st admin then Inl (Require ''Not an admin'')
      else Inr (st\<lparr>isAdmin := (isAdmin st)(admin := False),
                   admins := (case first_index admin (admins st) of
                                None \<Rightarrow> admins st
                              | Some i \<Rightarrow> butlast ((admins st)[i := last (admins st)])),
                   events := events st @ [AdminRemoved admin sender]\<rparr>))"

subsection \<open>Registration\<close>

text \<open>
  \<^verbatim>\<open>_generateTouristId\<close> hashes block data; the identifier it returns is an argument here.
\<close>

definition registerTourist ::
  "address \<Rightarrow> nat \<Rightarrow> string \<Rightarrow> string \<Rightarrow> string \<Rightarrow> nat \<Rightarrow> string \<Rightarrow> contract
     \<Rightarrow> sol_error + contract" where
  "registerTourist sender now username email phone dateOfBirth touristId st =
     (if t_isActive (tourists st sender) then Inl (Require ''Already registered'')
      else if username = [] then Inl (Require ''Username required'')
      else if email = [] then Inl (Require ''Email required'')
      else if touristCounter st \<ge> uint256_max then Inl Panic_arithmetic
      else Inr (st\<lparr>touristCounter := touristCounter st + 1,
                   tourists := (tourists st)(sender :=
                     \<lparr>t_touristId = touristId, t_username = username, t_email = email,
                      t_phone = phone, t_dateOfBirth = dateOfBirth, t_status = Safe,
                      t_registeredAt = now, t_isActive = True, t_lastLatitude = 0,
                      t_lastLongitude = 0, t_lastLocationUpdate = 0\<rparr>),
                   touristIdToAddress := (touristIdToAddress st)(touristId := sender),
                   registeredTourists := registeredTourists st @ [sender],
                   events := events st @ [TouristRegistered sender touristId username now]\<rparr>))"

subsection \<open>Emergency alerts\<close>

text \<open>\<^verbatim>\<open>_createEmergencyAlert\<close> (lines 444-474).\<close>

definition createEmergencyAlert ::
  "address \<Rightarrow> SafetyStatus \<Rightarrow> string \<Rightarrow> ZoneLevel \<Rightarrow> nat \<Rightarrow> contract \<Rightarrow> sol_error + contract" where
  "createEmergencyAlert tourist status zoneName zoneLevel now st =
     (if alertCounter st \<ge> uint256_max then Inl Panic_arithmetic
      else if alertCount st \<ge> uint256_max then Inl Panic_arithmetic
      else
        (let alertId = ''ALERT-'' @ uint2str (alertCounter st + 1);
             t = tourists st tourist
         in Inr (st\<lparr>alertCounter := alertCounter st + 1,
                     alerts := alerts st @
                       [\<lparr>a_alertId = alertId, a_tourist = tourist, a_touristId = t_touristId t,
                         a_status = status, a_latitude = t_lastLatitude t,
                         a_longitude = t_lastLongitude t, a_zoneName = zoneName,
                         a_zoneLevel = zoneLevel, a_timestamp = now, a_isDismissed = False\<rparr>],
                     alertCount := alertCount st + 1,
                     events := events st @
                       [EmergencyAlertCreated alertId tourist (t_touristId t) status now]\<rparr>)))"

definition dismissAlert :: "address \<Rightarrow> nat \<Rightarrow> contract \<Rightarrow> sol_error + contract" where
  "dismissAlert sender alertIndex st =
     (if \<not> onlyAdmin sender st then Inl (Require ''Only admin can perform this action'')
      else if \<not> alertIndex < length (alerts st) then Inl (Require ''Invalid alert index'')
      else if a_isDismissed (alerts st ! alertIndex) then Inl (Require ''Alert already dismissed'')
      else if alertCount st = 0 then Inl Panic_arithmetic
      else Inr (st\<lparr>alerts := (alerts st)[alertIndex := (alerts st ! alertIndex)\<lparr>a_isDismissed := True\<rparr>],
                   alertCount := alertCount st - 1,
                   events := events st @ [AlertDismissed (a_alertId (alerts st ! alertIndex)) sender]\<rparr>))"

text \<open>
  \<^verbatim>\<open>getActiveAlerts\<close> (lines 556-566): an array of \<^verbatim>\<open>alertCount\<close> empty alerts is filled
  from the front; a write past its end panics.
\<close>

fun fill_active ::
  "EmergencyAlert list \<Rightarrow> nat \<Rightarrow> EmergencyAlert list \<Rightarrow> sol_error + EmergencyAlert list" where
  "fill_active activeAlerts index [] = Inr activeAlerts"
| "fill_active activeAlerts index (a # rest) =
     (if \<not> a_isDismissed a then
        (if index < length activeAlerts
         then fill_active (activeAlerts[index := a]) (index + 1) rest
         else Inl Panic_index)
      else fill_active activeAlerts index rest)"

definition getActiveAlerts :: "address \<Rightarrow> contract \<Rightarrow> sol_error + EmergencyAlert list" where
  "getActiveAlerts sender st =
     (if \<not> onlyAdmin sender st then Inl (Require ''Only admin can perform this action'')
      else fill_active (replicate (alertCount st) empty_alert) 0 (alerts st))"

subsection \<open>Status and location\<close>

definition updateStatus :: "address \<Rightarrow> nat \<Rightarrow> SafetyStatus \<Rightarrow> contract \<Rightarrow> sol_error + contract" where
  "updateStatus sender now status st =
     (if \<not> onlyRegisteredTourist sender st then Inl (Require ''Tourist not registered'')
      else
        (let tourist = tourists st sender;
             st1 = st\<lparr>tourists := (tourists st)(sender := tourist\<lparr>t_status := status\<rparr>),
                      events := events st @
                        [StatusUpdated sender (t_touristId tourist) (t_status tourist) status now]\<rparr>
         in if status = Alert \<or> status = Danger
            then createEmergencyAlert sender status [] Low now st1
            else Inr st1))"

text \<open>The two local values of the loop body of \<^verbatim>\<open>_checkDangerZoneEntry\<close> (lines 335-342).\<close>

definition distanceSquared :: "int \<Rightarrow> int \<Rightarrow> SolDangerZone \<Rightarrow> int option" where
  "distanceSquared latitude longitude zone =
     (case checked_int256 (latitude - z_latitude zone) of None \<Rightarrow> None | Some latDiff \<Rightarrow>
      case checked_int256 (longitude - z_longitude zone) of None \<Rightarrow> None | Some lngDiff \<Rightarrow>
      case checked_int256 (latDiff * latDiff) of None \<Rightarrow> None | Some latSq \<Rightarrow>
      case checked_int256 (lngDiff * lngDiff) of None \<Rightarrow> None | Some lngSq \<Rightarrow>
      checked_int256 (latSq + lngSq))"

definition radiusSquared :: "SolDangerZone \<Rightarrow> int option" where
  "radiusSquared zone =
     (case checked_uint256 (z_radius zone * z_radius zone) of None \<Rightarrow> None | Some rr \<Rightarrow>
      case checked_uint256 (rr * 100) of None \<Rightarrow> None | Some r \<Rightarrow>
      Some (int256_of_uint256 r))"

text \<open>The loop of \<^verbatim>\<open>_checkDangerZoneEntry\<close> (lines 329-353) over the zones still to visit.\<close>

fun checkDangerZoneEntry_from ::
  "address \<Rightarrow> int \<Rightarrow> int \<Rightarrow> nat \<Rightarrow> SolDangerZone list \<Rightarrow> contract \<Rightarrow> sol_error + contract" where
  "checkDangerZoneEntry_from tourist latitude longitude now [] st = Inr st"
| "checkDangerZoneEntry_from tourist latitude longitude now (zone # zones) st =
     (if \<not> z_isActive zone then checkDangerZoneEntry_from tourist latitude longitude now zones st
      else case distanceSquared latitude longitude zone of
             None \<Rightarrow> Inl Panic_arithmetic
           | Some d2 \<Rightarrow>
              (case radiusSquared zone of
                 None \<Rightarrow> Inl Panic_arithmetic
               | Some r2 \<Rightarrow>
                  (if d2 \<le> r2 then
                     (if t_status (tourists st tourist) = Safe then
                        createEmergencyAlert tourist Alert (z_name zone) (z_level zone) now
                          (st\<lparr>tourists := (tourists st)
                                (tourist := (tourists st tourist)\<lparr>t_status := Alert\<rparr>)\<rparr>)
                      else Inr st)
                   else checkDangerZoneEntry_from tourist latitude longitude now zones st)))"

definition checkDangerZoneEntry ::
  "address \<Rightarrow> int \<Rightarrow> int \<Rightarrow> nat \<Rightarrow> contract \<Rightarrow> sol_error + contract" where
  "checkDangerZoneEntry tourist latitude longitude now st =
     checkDangerZoneEntry_from tourist latitude longitude now (dangerZones st) st"

definition updateLocation :: "address \<Rightarrow> nat \<Rightarrow> int \<Rightarrow> int \<Rightarrow> contract \<Rightarrow> sol_error + contract" where
  "updateLocation sender now latitude longitude st =
     (if \<not> onlyRegisteredTourist sender st then Inl (Require ''Tourist not registered'')
      else
        (let tourist = tourists st sender;
             st1 = st\<lparr>tourists := (tourists st)(sender :=
                        tourist\<lparr>t_lastLatitude := latitude, t_lastLongitude := longitude,
                                t_lastLocationUpdate := now\<rparr>),
                      events := events st @
                        [LocationUpdated sender (t_touristId tourist) latitude longitude now]\<rparr>
         in checkDangerZoneEntry sender latitude longitude now st1))"

subsection \<open>Danger zones\<close>

definition createDangerZone ::
  "address \<Rightarrow> nat \<Rightarrow> string \<Rightarrow> int \<Rightarrow> int \<Rightarrow> nat \<Rightarrow> ZoneLevel \<Rightarrow> contract
     \<Rightarrow> sol_error + contract" where
  "createDangerZone sender now name latitude longitude radius level st =
     (if \<not> onlyAdmin sender st then Inl (Require ''Only admin can perform this action'')
      else if name = [] then Inl (Require ''Zone name required'')
      else if \<not> radius > 0 then Inl (Require ''Radius must be positive'')
      else if zoneCounter st \<ge> uint256_max then Inl Panic_arithmetic
      else
        (let zoneId = ''ZONE-'' @ uint2str (zoneCounter st + 1)
         in Inr (st\<lparr>zoneCounter := zoneCounter st + 1,
                     dangerZones := dangerZones st @
                       [\<lparr>z_zoneId = zoneId, z_name = name, z_latitude = latitude,
                         z_longitude = longitude, z_radius = radius, z_level = level,
                         z_createdBy = sender, z_createdAt = now, z_isActive = True\<rparr>],
                     zoneIdToIndex := (zoneIdToIndex st)(zoneId := length (dangerZones st)),
                     events := events st @
                       [DangerZoneCreated zoneId name latitude longitude radius level sender]\<rparr>)))"

definition updateDangerZone ::
  "address \<Rightarrow> nat \<Rightarrow> string \<Rightarrow> nat \<Rightarrow> ZoneLevel \<Rightarrow> contract \<Rightarrow> sol_error + contract" where
  "updateDangerZone sender zoneIndex name radius level st =
     (if \<not> onlyAdmin sender st then Inl (Require ''Only admin can perform this action'')
      else if \<not> zoneIndex < length (dangerZones st) then Inl (Require ''Invalid zone index'')
      else if \<not> z_isActive (dangerZones st ! zoneIndex) then Inl (Require ''Zone not active'')
      else
        (let zone = (dangerZones st ! zoneIndex)\<lparr>z_name := name, z_radius := radius, z_level := level\<rparr>
         in Inr (st\<lparr>dangerZones := (dangerZones st)[zoneIndex := zone],
                     events := events st @ [DangerZoneUpdated (z_zoneId zone) name radius level]\<rparr>)))"

definition removeDangerZone :: "address \<Rightarrow> nat \<Rightarrow> contract \<Rightarrow> sol_error + contract" where
  "removeDangerZone sender zoneIndex st =
     (if \<not> onlyAdmin sender st then Inl (Require ''Only admin can perform this action'')
      else if \<not> zoneIndex < length (dangerZones st) then Inl (Require ''Invalid zone index'')
      else if \<not> z_isActive (dangerZones st ! zoneIndex) then Inl (Require ''Zone already inactive'')
      else Inr (st\<lparr>dangerZones := (dangerZones st)
                     [zoneIndex := (dangerZones st ! zoneIndex)\<lparr>z_isActive := False\<rparr>],
                   events := events st @
                     [DangerZoneRemoved (z_zoneId (dangerZones st ! zoneIndex)) sender]\<rparr>))"

subsection \<open>Transactions\<close>

text \<open>
  Every state-changing external function of the contract, as a transaction; a history is
  a list of transactions with their senders and block timestamps, run from the deployed
  state, where a reverted transaction leaves the state as it was.
\<close>

datatype tx =
    Tx_addAdmin address
  | Tx_removeAdmin address
  | Tx_registerTourist string string string nat string
  | Tx_updateStatus SafetyStatus
  | Tx_updateLocation int int
  | Tx_createDangerZone string int int nat ZoneLevel
  | Tx_updateDangerZone nat string nat ZoneLevel
  | Tx_removeDangerZone nat
  | Tx_dismissAlert nat

fun exec :: "address \<Rightarrow> nat \<Rightarrow> tx \<Rightarrow> contract \<Rightarrow> sol_error + contract" where
  "exec sender now (Tx_addAdmin a) st = addAdmin sender a st"
| "exec sender now (Tx_removeAdmin a) st = removeAdmin sender a st"
| "exec sender now (Tx_registerTourist username email phone dob touristId) st =
     registerTourist sender now username email phone dob touristId st"
| "exec sender now (Tx_updateStatus status) st = updateStatus sender now status st"
| "exec sender now (Tx_updateLocation latitude longitude) st =
     updateLocation sender now latitude longitude st"
| "exec sender now (Tx_createDangerZone name latitude longitude radius level) st =
     createDangerZone sender now name latitude longitude radius level st"
| "exec sender now (Tx_updateDangerZone zoneIndex name radius level) st =
     updateDangerZone sender zoneIndex name radius level st"
| "exec sender now (Tx_removeDangerZone zoneIndex) st = removeDangerZone sender zoneIndex st"
| "exec sender now (Tx_dismissAlert alertIndex) st = dismissAlert sender alertIndex st"

fun run_txs :: "contract \<Rightarrow> (address \<times> nat \<times> tx) list \<Rightarrow> contract" where
  "run_txs st [] = st"
| "run_txs st ((sender, now, t) # rest) =
     run_txs (case exec sender now t st of Inl _ \<Rightarrow> st | Inr st' \<Rightarrow> st') rest"


section \<open>Properties of the distance\<close>

lemma calculateDistance_is_spec:
  "calculateDistance lat1 lon1 lat2 lon2 = haversine_spec lat1 lon1 lat2 lon2"
  by (simp add: calculateDistance_def haversine_spec_def haversine_a_def radians_def
      Let_def power2_eq_square algebra_simps diff_divide_distrib)

lemma calculateDistance_server_is_spec:
  "calculateDistance_server lat1 lon1 lat2 lon2 = haversine_spec lat1 lon1 lat2 lon2"
  by (simp add: calculateDistance_server_def haversine_spec_def haversine_a_def radians_def
      Let_def power2_eq_square algebra_simps diff_divide_distrib)

text \<open>Two distances that evaluate exactly: a point to itself, and two antipodal points.\<close>

lemma calculateDistance_self: "calculateDistance x y x y = 0"
  by (simp add: calculateDistance_def atan2_def)

lemma calculateDistance_server_self: "calculateDistance_server x y x y = 0"
  by (simp add: calculateDistance_server_def atan2_def)

lemma calculateDistance_antipodal: "calculateDistance 0 0 0 180 = 6371000 * pi"
  by (simp add: calculateDistance_def atan2_def)


lemma far_apart: "\<not> 6371000 * pi \<le> (1000::real)"
  using pi_ge_two by simp

text \<open>
  The term under the square roots lies between 0 and 1 for all angles, so neither root
  is taken of a negative number.
\<close>

lemma haversine_a_range:
  "0 \<le> haversine_a phi1 lam1 phi2 lam2 \<and> haversine_a phi1 lam1 phi2 lam2 \<le> 1"
proof -
  define s where "s = (sin ((lam2 - lam1) / 2))\<^sup>2"
  define A where "A = (sin ((phi2 - phi1) / 2))\<^sup>2"
  define c where "c = cos phi1 * cos phi2"
  have s: "0 \<le> s" "s \<le> 1"
    by (simp_all add: s_def abs_square_le_1)
  have "2 * ((phi2 - phi1) / 2) = phi2 - phi1"
    by simp
  then have "cos (phi2 - phi1) = 1 - 2 * (sin ((phi2 - phi1) / 2))\<^sup>2"
    using cos_double_sin [of "(phi2 - phi1) / 2"] by (simp only:)
  then have A: "A = (1 - cos (phi2 - phi1)) / 2"
    by (simp add: A_def)
  have A01: "0 \<le> A" "A \<le> 1"
    by (simp_all add: A_def abs_square_le_1)
  have B: "A + c = (1 + cos (phi2 + phi1)) / 2"
    by (simp add: A c_def cos_add cos_diff field_simps)
  have lo: "0 \<le> 1 + cos (phi2 + phi1)"
  proof -
    have "- 1 \<le> cos (phi2 + phi1)"
      by (rule cos_ge_minus_one)
    then show ?thesis
      by linarith
  qed
  have hi: "1 + cos (phi2 + phi1) \<le> 2"
  proof -
    have "cos (phi2 + phi1) \<le> 1"
      by (rule cos_le_one)
    then show ?thesis
      by linarith
  qed
  have B0: "0 \<le> A + c"
    using lo by (simp add: B)
  have B1: "A + c \<le> 1"
    using hi by (simp add: B)
  define B' where "B' = A + c"
  have B': "0 \<le> B'" "B' \<le> 1"
    using B0 B1 by (simp_all add: B'_def)
  have eq: "haversine_a phi1 lam1 phi2 lam2 = (1 - s) * A + s * B'"
    by (simp add: haversine_a_def s_def A_def c_def B'_def algebra_simps)
  have "0 \<le> (1 - s) * A + s * B'"
    using s A01 B' by (intro add_nonneg_nonneg mult_nonneg_nonneg) simp_all
  moreover have "(1 - s) * A + s * B' \<le> (1 - s) * 1 + s * 1"
    using s A01 B' by (intro add_mono mult_left_mono) simp_all
  ultimately show ?thesis
    by (simp add: eq)
qed

text \<open>
  In exact real arithmetic both functions are the Haversine great-circle distance with
  Earth radius 6 371 000 m, as the specification writes it. The code computes in IEEE
  doubles, where the term \<open>a\<close> can round above 1 and the result is then NaN; rounding
  is not represented here, so this is a statement about the formula, not about the
  values the code returns.
\<close>

lemma calculateDistance_haversine:
  "calculateDistance lat1 lon1 lat2 lon2 = haversine_spec lat1 lon1 lat2 lon2 \<and>
   calculateDistance_server lat1 lon1 lat2 lon2 = haversine_spec lat1 lon1 lat2 lon2"
  by (simp add: calculateDistance_is_spec calculateDistance_server_is_spec)


section \<open>Properties of the hook\<close>

lemma zoneKey_eq_iff: "zoneKey userId z = zoneKey userId z' \<longleftrightarrow> zone_id z = zone_id z'"
  by (simp add: zoneKey_def)

lemma zone_callback_notified:
  "zoneKey userId zone \<in> notifiedZones (fst (zone_callback loc userId username now zone st))
     \<longleftrightarrow> isInZone loc zone"
  by (simp add: zone_callback_def Let_def)

lemma zone_callback_other:
  "k \<noteq> zoneKey userId zone \<Longrightarrow>
   k \<in> notifiedZones (fst (zone_callback loc userId username now zone st)) \<longleftrightarrow> k \<in> notifiedZones st"
  by (simp add: zone_callback_def Let_def)

lemma zone_callback_noop:
  "(isInZone loc zone \<longleftrightarrow> zoneKey userId zone \<in> notifiedZones st) \<Longrightarrow>
   zone_callback loc userId username now zone st = (st, [])"
  by (auto simp add: zone_callback_def Let_def)

lemma forEach_zone_other:
  "k \<notin> zoneKey userId ` set zones \<Longrightarrow>
   k \<in> notifiedZones (fst (forEach_zone loc userId username now zones st)) \<longleftrightarrow> k \<in> notifiedZones st"
proof (induction zones arbitrary: st)
  case Nil
  then show ?case by simp
next
  case (Cons z zs)
  then show ?case
    by (simp add: split_beta Let_def zone_callback_other)
qed

lemma forEach_zone_notified:
  "distinct (map zone_id zones) \<Longrightarrow> z \<in> set zones \<Longrightarrow>
   zoneKey userId z \<in> notifiedZones (fst (forEach_zone loc userId username now zones st))
     \<longleftrightarrow> isInZone loc z"
proof (induction zones arbitrary: st)
  case Nil
  then show ?case by simp
next
  case (Cons y ys)
  show ?case
  proof (cases "z = y")
    case True
    have "zoneKey userId y \<notin> zoneKey userId ` set ys"
      using Cons.prems(1) by (auto simp: zoneKey_eq_iff)
    then show ?thesis
      using True by (simp add: split_beta Let_def forEach_zone_other zone_callback_notified)
  next
    case False
    then show ?thesis
      using Cons by (simp add: split_beta Let_def)
  qed
qed

lemma forEach_zone_noop:
  "(\<forall>z\<in>set zones. isInZone loc z \<longleftrightarrow> zoneKey userId z \<in> notifiedZones st) \<Longrightarrow>
   forEach_zone loc userId username now zones st = (st, [])"
  by (induction zones) (simp_all add: zone_callback_noop)

text \<open>
  C1, as stated, fails on the hook: the user enters a zone, the zone then leaves the
  stored zone list, and the next run is for a position far outside it. That run does not
  evaluate the zone, so its key stays in the notified set although the latest sample is
  not within its radius.
\<close>

theorem stale_membership_after_zone_removed:
  "zoneKey ''TID-1'' \<lparr>zone_id = ''Z1'', zone_name = ''Far side'', zone_lat = 0, zone_lng = 180,
        zone_radius = 1000, zone_level = Level_high\<rparr>
     \<in> notifiedZones (fst (hook_run
          [\<lparr>c_userLocation = Some \<lparr>loc_lat = 0, loc_lng = 180\<rparr>, c_userId = ''TID-1'',
            c_username = ''ann'', c_now = 5,
            c_dangerZones = [\<lparr>zone_id = ''Z1'', zone_name = ''Far side'', zone_lat = 0,
               zone_lng = 180, zone_radius = 1000, zone_level = Level_high\<rparr>]\<rparr>,
           \<lparr>c_userLocation = Some \<lparr>loc_lat = 0, loc_lng = 0\<rparr>, c_userId = ''TID-1'',
            c_username = ''ann'', c_now = 6, c_dangerZones = []\<rparr>]
          (hook_init [])))
   \<and> \<not> calculateDistance 0 0 0 180 \<le> 1000"
  by (simp add: useEffect_run_def zone_callback_def isInZone_def calculateDistance_self
      calculateDistance_antipodal far_apart hook_init_def zoneKey_def Let_def)

text \<open>
  C1, amended: after any sequence of runs of the effect, a further run with a location
  and a zone list whose ids are pairwise distinct leaves, for every zone of that list,
  the key of (user, zone) in the notified set if and only if the location is within the
  zone's radius of its centre under \<^verbatim>\<open>calculateDistance\<close>; the key of a pair that the
  run does not evaluate keeps the membership it had, whatever the new location; and
  where containment has not changed, for the whole list or for a single zone, the state
  is returned as it was and nothing is emitted.
\<close>

theorem membership_state_invariant:
  assumes "distinct (map zone_id zones)"
  shows "let st = fst (hook_run calls (hook_init stored));
             r = useEffect_run \<lparr>c_userLocation = Some loc, c_userId = userId,
                   c_username = username, c_now = now, c_dangerZones = zones\<rparr> st
         in (\<forall>z\<in>set zones. zoneKey userId z \<in> notifiedZones (fst r) \<longleftrightarrow>
               calculateDistance (loc_lat loc) (loc_lng loc) (zone_lat z) (zone_lng z)
                 \<le> zone_radius z)
          \<and> (\<forall>k. k \<notin> zoneKey userId ` set zones \<longrightarrow>
               (k \<in> notifiedZones (fst r) \<longleftrightarrow> k \<in> notifiedZones st))
          \<and> ((\<forall>z\<in>set zones. isInZone loc z \<longleftrightarrow> zoneKey userId z \<in> notifiedZones st)
               \<longrightarrow> r = (st, []))
          \<and> (\<forall>z s. (isInZone loc z \<longleftrightarrow> zoneKey userId z \<in> notifiedZones s)
               \<longrightarrow> zone_callback loc userId username now z s = (s, []))"
proof -
  define st where "st = fst (hook_run calls (hook_init stored))"
  define r where "r = forEach_zone loc userId username now zones st"
  have 1: "\<forall>z\<in>set zones. zoneKey userId z \<in> notifiedZones (fst r) \<longleftrightarrow>
             calculateDistance (loc_lat loc) (loc_lng loc) (zone_lat z) (zone_lng z) \<le> zone_radius z"
    using forEach_zone_notified [OF assms] by (simp add: r_def isInZone_def)
  have 2: "\<forall>k. k \<notin> zoneKey userId ` set zones \<longrightarrow>
             (k \<in> notifiedZones (fst r) \<longleftrightarrow> k \<in> notifiedZones st)"
    by (simp add: r_def forEach_zone_other)
  have 3: "(\<forall>z\<in>set zones. isInZone loc z \<longleftrightarrow> zoneKey userId z \<in> notifiedZones st)
             \<longrightarrow> r = (st, [])"
    by (simp add: r_def forEach_zone_noop)
  have 4: "\<forall>z s. (isInZone loc z \<longleftrightarrow> zoneKey userId z \<in> notifiedZones s)
             \<longrightarrow> zone_callback loc userId username now z s = (s, [])"
    by (simp add: zone_callback_noop)
  from 1 2 3 4 show ?thesis
    by (simp add: useEffect_run_def st_def r_def Let_def)
qed

theorem membership_state_invariant_witness:
  "distinct (map zone_id [\<lparr>zone_id = ''Z1'', zone_name = ''Harbour'', zone_lat = 10, zone_lng = 20,
        zone_radius = 1000, zone_level = Level_high\<rparr>]) \<and>
   zoneKey ''TID-1'' \<lparr>zone_id = ''Z1'', zone_name = ''Harbour'', zone_lat = 10, zone_lng = 20,
        zone_radius = 1000, zone_level = Level_high\<rparr>
     \<in> notifiedZones (fst (useEffect_run
          \<lparr>c_userLocation = Some \<lparr>loc_lat = 10, loc_lng = 20\<rparr>, c_userId = ''TID-1'',
           c_username = ''ann'', c_now = 5,
           c_dangerZones = [\<lparr>zone_id = ''Z1'', zone_name = ''Harbour'', zone_lat = 10,
              zone_lng = 20, zone_radius = 1000, zone_level = Level_high\<rparr>]\<rparr>
          (fst (hook_run [] (hook_init [])))))"
  using membership_state_invariant [where calls = "[]" and stored = "[]" and userId = "''TID-1''"
      and username = "''ann''" and now = 5 and loc = "\<lparr>loc_lat = 10, loc_lng = 20\<rparr>"
      and zones = "[\<lparr>zone_id = ''Z1'', zone_name = ''Harbour'', zone_lat = 10, zone_lng = 20,
        zone_radius = 1000, zone_level = Level_high\<rparr>]"]
  by (simp add: Let_def calculateDistance_self)

section \<open>Properties of the backend handler\<close>

lemma zone_loop_eq:
  "zone_loop body data zones =
     map (\<lambda>z. Insert_alert (entered_alert body data z))
       (filter (\<lambda>z. calculateDistance_server (b_lat body) (b_lng body) (zr_lat z) (zr_lng z)
                        \<le> zr_radius z) zones)"
  by (induction zones) simp_all



section \<open>Properties of the contract\<close>

lemma filter_update_drop_one:
  "i < length xs \<Longrightarrow> P (xs ! i) \<Longrightarrow> \<not> P y \<Longrightarrow>
   Suc (length (filter P (xs[i := y]))) = length (filter P xs)"
proof (induction xs arbitrary: i)
  case Nil
  then show ?case by simp
next
  case (Cons x xs)
  then show ?case by (cases i) simp_all
qed

lemma createEmergencyAlert_count:
  "createEmergencyAlert tourist status zoneName zoneLevel now st = Inr st' \<Longrightarrow>
   alertCount st = length (filter (\<lambda>a. \<not> a_isDismissed a) (alerts st)) \<Longrightarrow>
   alertCount st' = length (filter (\<lambda>a. \<not> a_isDismissed a) (alerts st'))"
  by (auto simp add: createEmergencyAlert_def Let_def split: if_splits)

lemma checkDangerZoneEntry_from_count:
  "checkDangerZoneEntry_from tourist latitude longitude now zones st = Inr st' \<Longrightarrow>
   alertCount st = length (filter (\<lambda>a. \<not> a_isDismissed a) (alerts st)) \<Longrightarrow>
   alertCount st' = length (filter (\<lambda>a. \<not> a_isDismissed a) (alerts st'))"
proof (induction zones)
  case Nil
  then show ?case by simp
next
  case (Cons zone zones)
  then show ?case
    by (auto split: if_splits option.splits dest!: createEmergencyAlert_count)
qed

lemma dismissAlert_count:
  assumes "dismissAlert sender alertIndex st = Inr st'"
    and "alertCount st = length (filter (\<lambda>a. \<not> a_isDismissed a) (alerts st))"
  shows "alertCount st' = length (filter (\<lambda>a. \<not> a_isDismissed a) (alerts st'))"
proof -
  from assms(1) have i: "alertIndex < length (alerts st)"
    and nd: "\<not> a_isDismissed (alerts st ! alertIndex)"
    and st': "st' = st\<lparr>alerts := (alerts st)[alertIndex := (alerts st ! alertIndex)\<lparr>a_isDismissed := True\<rparr>],
                   alertCount := alertCount st - 1,
                   events := events st @ [AlertDismissed (a_alertId (alerts st ! alertIndex)) sender]\<rparr>"
    by (auto simp add: dismissAlert_def split: if_splits)
  have "Suc (length (filter (\<lambda>a. \<not> a_isDismissed a)
          ((alerts st)[alertIndex := (alerts st ! alertIndex)\<lparr>a_isDismissed := True\<rparr>])))
        = length (filter (\<lambda>a. \<not> a_isDismissed a) (alerts st))"
    using i nd by (intro filter_update_drop_one) simp_all
  with assms(2) show ?thesis
    by (simp add: st')
qed

lemma exec_count:
  assumes "exec sender now t st = Inr st'"
    and "alertCount st = length (filter (\<lambda>a. \<not> a_isDismissed a) (alerts st))"
  shows "alertCount st' = length (filter (\<lambda>a. \<not> a_isDismissed a) (alerts st'))"
proof (cases t)
  case (Tx_addAdmin a)
  with assms show ?thesis by (auto simp add: addAdmin_def split: if_splits)
next
  case (Tx_removeAdmin a)
  with assms show ?thesis by (auto simp add: removeAdmin_def split: if_splits)
next
  case (Tx_registerTourist username email phone dob touristId)
  with assms show ?thesis by (auto simp add: registerTourist_def split: if_splits)
next
  case (Tx_updateStatus status)
  with assms show ?thesis
    by (auto simp add: updateStatus_def Let_def split: if_splits dest!: createEmergencyAlert_count)
next
  case (Tx_updateLocation latitude longitude)
  with assms show ?thesis
    by (auto simp add: updateLocation_def checkDangerZoneEntry_def Let_def
        split: if_splits dest!: checkDangerZoneEntry_from_count)
next
  case (Tx_createDangerZone name latitude longitude radius level)
  with assms show ?thesis by (auto simp add: createDangerZone_def Let_def split: if_splits)
next
  case (Tx_updateDangerZone zoneIndex name radius level)
  with assms show ?thesis by (auto simp add: updateDangerZone_def Let_def split: if_splits)
next
  case (Tx_removeDangerZone zoneIndex)
  with assms show ?thesis by (auto simp add: removeDangerZone_def split: if_splits)
next
  case (Tx_dismissAlert alertIndex)
  with assms show ?thesis by (auto dest: dismissAlert_count)
qed

lemma run_txs_count:
  "alertCount st = length (filter (\<lambda>a. \<not> a_isDismissed a) (alerts st)) \<Longrightarrow>
   alertCount (run_txs st txs) = length (filter (\<lambda>a. \<not> a_isDismissed a) (alerts (run_txs st txs)))"
proof (induction txs arbitrary: st)
  case Nil
  then show ?case by simp
next
  case (Cons x txs)
  obtain sender now t where x: "x = (sender, now, t)"
    by (cases x) auto
  show ?case
  proof (cases "exec sender now t st")
    case (Inl e)
    with Cons x show ?thesis by simp
  next
    case (Inr st')
    have "alertCount st' = length (filter (\<lambda>a. \<not> a_isDismissed a) (alerts st'))"
      using Inr Cons.prems by (rule exec_count)
    with Cons.IH Inr x show ?thesis by simp
  qed
qed

lemma fill_active_exact:
  "index + length (filter (\<lambda>a. \<not> a_isDismissed a) as) = length acc \<Longrightarrow>
   fill_active acc index as = Inr (take index acc @ filter (\<lambda>a. \<not> a_isDismissed a) as)"
proof (induction as arbitrary: acc index)
  case Nil
  then show ?case by simp
next
  case (Cons a as)
  show ?case
  proof (cases "a_isDismissed a")
    case True
    with Cons show ?thesis by simp
  next
    case False
    with Cons.prems have lt: "index < length acc"
      and len: "Suc index + length (filter (\<lambda>a. \<not> a_isDismissed a) as) = length (acc[index := a])"
      by simp_all
    have "fill_active (acc[index := a]) (Suc index) as
            = Inr (take (Suc index) (acc[index := a]) @ filter (\<lambda>a. \<not> a_isDismissed a) as)"
      using len by (rule Cons.IH)
    moreover have "take (Suc index) (acc[index := a]) = take index acc @ [a]"
      using lt by (simp add: take_Suc_conv_app_nth)
    ultimately show ?thesis
      using False lt by simp
  qed
qed

lemma createEmergencyAlert_appends:
  "createEmergencyAlert tourist status zoneName zoneLevel now st = Inr st' \<Longrightarrow>
   (\<exists>a. alerts st' = alerts st @ [a] \<and> \<not> a_isDismissed a \<and> a_zoneName a = zoneName
        \<and> a_zoneLevel a = zoneLevel \<and> a_status a = status \<and> a_tourist a = tourist)
   \<and> alertCount st' = alertCount st + 1"
  by (auto simp add: createEmergencyAlert_def Let_def split: if_splits)

text \<open>
  C9: in every state the contract reaches from deployment, \<^verbatim>\<open>alertCount\<close> is the number
  of alerts that are not dismissed, and \<^verbatim>\<open>getActiveAlerts\<close>, called by an admin, returns
  exactly the alerts that are not dismissed, in order, with no empty slot.
  \<^verbatim>\<open>_createEmergencyAlert\<close> appends one alert that is not dismissed and adds one to the
  count; \<^verbatim>\<open>dismissAlert\<close> succeeds only on an existing alert that is not yet dismissed,
  marks it dismissed and takes one from the count.
\<close>

theorem alertCount_counts_active:
  "(let st = run_txs (constructor deployer) txs
    in alertCount st = length (filter (\<lambda>a. \<not> a_isDismissed a) (alerts st))
     \<and> (onlyAdmin sender st \<longrightarrow>
          getActiveAlerts sender st = Inr (filter (\<lambda>a. \<not> a_isDismissed a) (alerts st))))
   \<and> (createEmergencyAlert tourist status zoneName zoneLevel now s = Inr s' \<longrightarrow>
        (\<exists>a. alerts s' = alerts s @ [a] \<and> \<not> a_isDismissed a) \<and> alertCount s' = alertCount s + 1)
   \<and> (dismissAlert sender alertIndex s = Inr s' \<longrightarrow>
        alertIndex < length (alerts s) \<and> \<not> a_isDismissed (alerts s ! alertIndex)
        \<and> alerts s' = (alerts s)[alertIndex := (alerts s ! alertIndex)\<lparr>a_isDismissed := True\<rparr>]
        \<and> alertCount s' + 1 = alertCount s)"
proof -
  define st where "st = run_txs (constructor deployer) txs"
  have count: "alertCount st = length (filter (\<lambda>a. \<not> a_isDismissed a) (alerts st))"
    unfolding st_def by (rule run_txs_count) (simp add: constructor_def)
  have "fill_active (replicate (alertCount st) empty_alert) 0 (alerts st)
          = Inr (take 0 (replicate (alertCount st) empty_alert)
                  @ filter (\<lambda>a. \<not> a_isDismissed a) (alerts st))"
    by (rule fill_active_exact) (simp add: count)
  then have active: "onlyAdmin sender st \<longrightarrow>
      getActiveAlerts sender st = Inr (filter (\<lambda>a. \<not> a_isDismissed a) (alerts st))"
    by (simp add: getActiveAlerts_def)
  have create: "createEmergencyAlert tourist status zoneName zoneLevel now s = Inr s' \<longrightarrow>
      (\<exists>a. alerts s' = alerts s @ [a] \<and> \<not> a_isDismissed a) \<and> alertCount s' = alertCount s + 1"
    using createEmergencyAlert_appends by blast
  have dismiss: "dismissAlert sender alertIndex s = Inr s' \<longrightarrow>
        alertIndex < length (alerts s) \<and> \<not> a_isDismissed (alerts s ! alertIndex)
        \<and> alerts s' = (alerts s)[alertIndex := (alerts s ! alertIndex)\<lparr>a_isDismissed := True\<rparr>]
        \<and> alertCount s' + 1 = alertCount s"
    by (auto simp add: dismissAlert_def split: if_splits)
  from count active create dismiss show ?thesis
    by (simp add: st_def Let_def)
qed

theorem alertCount_counts_active_witness:
  "(let st = run_txs (constructor 1)
       [(2, 10, Tx_registerTourist ''ann'' ''ann@example.org'' ''555'' 0 ''TID-0A1B2C-3D4E''),
        (1, 11, Tx_createDangerZone ''Pier'' 0 0 1 High),
        (2, 12, Tx_updateLocation 6 8),
        (2, 13, Tx_updateStatus Danger),
        (1, 14, Tx_dismissAlert 0)]
    in onlyAdmin 1 st \<and> alertCount st = 1 \<and> map a_isDismissed (alerts st) = [True, False]
     \<and> (case getActiveAlerts 1 st of Inl e \<Rightarrow> [] | Inr as \<Rightarrow> map a_status as) = [Danger])"
  using alertCount_counts_active [where deployer = 1 and sender = 1 and txs =
       "[(2, 10, Tx_registerTourist ''ann'' ''ann@example.org'' ''555'' 0 ''TID-0A1B2C-3D4E''),
        (1, 11, Tx_createDangerZone ''Pier'' 0 0 1 High),
        (2, 12, Tx_updateLocation 6 8),
        (2, 13, Tx_updateStatus Danger),
        (1, 14, Tx_dismissAlert 0)]", THEN conjunct1]
  by (simp add: Let_def constructor_def onlyAdmin_def onlyRegisteredTourist_def registerTourist_def
      createDangerZone_def updateLocation_def updateStatus_def dismissAlert_def
      checkDangerZoneEntry_def createEmergencyAlert_def distanceSquared_def radiusSquared_def
      checked_int256_def checked_uint256_def uint256_max_def int256_of_uint256_def empty_tourist_def)

section \<open>Admin alerts of the hook\<close>

lemma zone_callback_appends:
  "\<exists>new. dangerZoneAlerts (fst (zone_callback loc userId username now zone st))
            = dangerZoneAlerts st @ new
        \<and> adminNotified st \<subseteq> adminNotified (fst (zone_callback loc userId username now zone st))
        \<and> distinct (map (\<lambda>a. fst (da_id a)) new)
        \<and> (\<forall>a\<in>set new. fst (da_id a) \<in> adminNotified (fst (zone_callback loc userId username now zone st))
              \<and> fst (da_id a) \<notin> adminNotified st)"
  by (auto simp add: zone_callback_def Let_def)

lemma appends_trans:
  assumes 1: "dangerZoneAlerts st1 = dangerZoneAlerts st @ new1"
      "adminNotified st \<subseteq> adminNotified st1"
      "distinct (map (\<lambda>a. fst (da_id a)) new1)"
      "\<forall>a\<in>set new1. fst (da_id a) \<in> adminNotified st1 \<and> fst (da_id a) \<notin> adminNotified st"
    and 2: "dangerZoneAlerts st2 = dangerZoneAlerts st1 @ new2"
      "adminNotified st1 \<subseteq> adminNotified st2"
      "distinct (map (\<lambda>a. fst (da_id a)) new2)"
      "\<forall>a\<in>set new2. fst (da_id a) \<in> adminNotified st2 \<and> fst (da_id a) \<notin> adminNotified st1"
  shows "dangerZoneAlerts st2 = dangerZoneAlerts st @ (new1 @ new2)
        \<and> adminNotified st \<subseteq> adminNotified st2
        \<and> distinct (map (\<lambda>a. fst (da_id a)) (new1 @ new2))
        \<and> (\<forall>a\<in>set (new1 @ new2). fst (da_id a) \<in> adminNotified st2 \<and> fst (da_id a) \<notin> adminNotified st)"
  using assms by auto

lemma forEach_zone_appends:
  "\<exists>new. dangerZoneAlerts (fst (forEach_zone loc userId username now zones st))
            = dangerZoneAlerts st @ new
        \<and> adminNotified st \<subseteq> adminNotified (fst (forEach_zone loc userId username now zones st))
        \<and> distinct (map (\<lambda>a. fst (da_id a)) new)
        \<and> (\<forall>a\<in>set new. fst (da_id a) \<in> adminNotified (fst (forEach_zone loc userId username now zones st))
              \<and> fst (da_id a) \<notin> adminNotified st)"
proof (induction zones arbitrary: st)
  case Nil
  show ?case by simp
next
  case (Cons zone zones)
  define st1 where "st1 = fst (zone_callback loc userId username now zone st)"
  define st2 where "st2 = fst (forEach_zone loc userId username now zones st1)"
  have st2: "fst (forEach_zone loc userId username now (zone # zones) st) = st2"
    by (simp add: st1_def st2_def split_beta Let_def)
  obtain new1 where 1: "dangerZoneAlerts st1 = dangerZoneAlerts st @ new1"
      "adminNotified st \<subseteq> adminNotified st1"
      "distinct (map (\<lambda>a. fst (da_id a)) new1)"
      "\<forall>a\<in>set new1. fst (da_id a) \<in> adminNotified st1 \<and> fst (da_id a) \<notin> adminNotified st"
    using zone_callback_appends [of loc userId username now zone st] unfolding st1_def by blast
  obtain new2 where 2: "dangerZoneAlerts st2 = dangerZoneAlerts st1 @ new2"
      "adminNotified st1 \<subseteq> adminNotified st2"
      "distinct (map (\<lambda>a. fst (da_id a)) new2)"
      "\<forall>a\<in>set new2. fst (da_id a) \<in> adminNotified st2 \<and> fst (da_id a) \<notin> adminNotified st1"
    using Cons.IH [of st1] unfolding st2_def by blast
  show ?case
    unfolding st2 using appends_trans [OF 1 2] by blast
qed

lemma hook_run_appends:
  "\<exists>new. dangerZoneAlerts (fst (hook_run calls st)) = dangerZoneAlerts st @ new
        \<and> adminNotified st \<subseteq> adminNotified (fst (hook_run calls st))
        \<and> distinct (map (\<lambda>a. fst (da_id a)) new)
        \<and> (\<forall>a\<in>set new. fst (da_id a) \<in> adminNotified (fst (hook_run calls st))
              \<and> fst (da_id a) \<notin> adminNotified st)"
proof (induction calls arbitrary: st)
  case Nil
  show ?case by simp
next
  case (Cons c calls)
  define st1 where "st1 = fst (useEffect_run c st)"
  define st2 where "st2 = fst (hook_run calls st1)"
  have st2: "fst (hook_run (c # calls) st) = st2"
    by (simp add: st1_def st2_def split_beta Let_def)
  have "\<exists>new. dangerZoneAlerts st1 = dangerZoneAlerts st @ new
        \<and> adminNotified st \<subseteq> adminNotified st1
        \<and> distinct (map (\<lambda>a. fst (da_id a)) new)
        \<and> (\<forall>a\<in>set new. fst (da_id a) \<in> adminNotified st1 \<and> fst (da_id a) \<notin> adminNotified st)"
  proof (cases "c_userLocation c")
    case None
    then show ?thesis by (simp add: st1_def useEffect_run_def)
  next
    case (Some loc)
    then show ?thesis
      using forEach_zone_appends [of loc "c_userId c" "c_username c" "c_now c" "c_dangerZones c" st]
      by (simp add: st1_def useEffect_run_def)
  qed
  then obtain new1 where 1: "dangerZoneAlerts st1 = dangerZoneAlerts st @ new1"
      "adminNotified st \<subseteq> adminNotified st1"
      "distinct (map (\<lambda>a. fst (da_id a)) new1)"
      "\<forall>a\<in>set new1. fst (da_id a) \<in> adminNotified st1 \<and> fst (da_id a) \<notin> adminNotified st"
    by blast
  obtain new2 where 2: "dangerZoneAlerts st2 = dangerZoneAlerts st1 @ new2"
      "adminNotified st1 \<subseteq> adminNotified st2"
      "distinct (map (\<lambda>a. fst (da_id a)) new2)"
      "\<forall>a\<in>set new2. fst (da_id a) \<in> adminNotified st2 \<and> fst (da_id a) \<notin> adminNotified st1"
    using Cons.IH [of st1] unfolding st2_def by blast
  show ?case
    unfolding st2 using appends_trans [OF 1 2] by blast
qed

lemma distinct_count_le_one:
  "distinct (map f xs) \<Longrightarrow> length (filter (\<lambda>x. f x = k) xs) \<le> 1"
proof (induction xs)
  case Nil
  then show ?case by simp
next
  case (Cons a xs)
  show ?case
  proof (cases "f a = k")
    case True
    from Cons.prems have "f a \<notin> f ` set xs"
      by simp
    with True have "\<forall>x\<in>set xs. f x \<noteq> k"
      by (metis imageI)
    then have "filter (\<lambda>x. f x = k) xs = []"
      by (simp add: filter_empty_conv)
    with True show ?thesis by simp
  next
    case False
    with Cons show ?thesis by simp
  qed
qed

text \<open>
  C10: over a whole session of the hook, whatever the calls, the records appended to the
  persisted alert list hold at most one record for the key of any (userId, zone id) pair,
  and the admin-notified set only grows. Leaving a zone removes the key from the notified
  set alone; entering it again shows the entry toast and appends nothing; after
  \<^verbatim>\<open>clearNotifications\<close> an entry appends a record again.
\<close>

theorem one_admin_alert_per_key:
  "(let st' = fst (hook_run calls st)
    in take (length (dangerZoneAlerts st)) (dangerZoneAlerts st') = dangerZoneAlerts st
     \<and> length (filter (\<lambda>a. fst (da_id a) = zoneKey userId zone)
                 (drop (length (dangerZoneAlerts st)) (dangerZoneAlerts st'))) \<le> 1
     \<and> adminNotified st \<subseteq> adminNotified st')
   \<and> (\<not> isInZone loc zone \<and> zoneKey userId zone \<in> notifiedZones s \<longrightarrow>
        zone_callback loc userId username now zone s
          = (s\<lparr>notifiedZones := notifiedZones s - {zoneKey userId zone}\<rparr>, [Toast_Left zone]))
   \<and> (isInZone loc zone \<and> zoneKey userId zone \<notin> notifiedZones s
        \<and> zoneKey userId zone \<in> adminNotified s \<longrightarrow>
        zone_callback loc userId username now zone s
          = (s\<lparr>notifiedZones := insert (zoneKey userId zone) (notifiedZones s)\<rparr>, [Toast_Entered zone]))
   \<and> (isInZone loc zone \<longrightarrow>
        snd (zone_callback loc userId username now zone (clearNotifications s))
          = [Toast_Entered zone, Admin_Alert userId zone]
        \<and> length (dangerZoneAlerts (fst (zone_callback loc userId username now zone
                     (clearNotifications s)))) = length (dangerZoneAlerts s) + 1)"
proof -
  obtain new where new: "dangerZoneAlerts (fst (hook_run calls st)) = dangerZoneAlerts st @ new"
      "adminNotified st \<subseteq> adminNotified (fst (hook_run calls st))"
      "distinct (map (\<lambda>a. fst (da_id a)) new)"
    using hook_run_appends [of calls st] by blast
  have "length (filter (\<lambda>a. fst (da_id a) = zoneKey userId zone) new) \<le> 1"
    using new(3) by (rule distinct_count_le_one)
  with new(1,2) have session:
    "let st' = fst (hook_run calls st)
     in take (length (dangerZoneAlerts st)) (dangerZoneAlerts st') = dangerZoneAlerts st
      \<and> length (filter (\<lambda>a. fst (da_id a) = zoneKey userId zone)
                  (drop (length (dangerZoneAlerts st)) (dangerZoneAlerts st'))) \<le> 1
      \<and> adminNotified st \<subseteq> adminNotified st'"
    by (simp add: Let_def)
  have steps: "(\<not> isInZone loc zone \<and> zoneKey userId zone \<in> notifiedZones s \<longrightarrow>
        zone_callback loc userId username now zone s
          = (s\<lparr>notifiedZones := notifiedZones s - {zoneKey userId zone}\<rparr>, [Toast_Left zone]))
   \<and> (isInZone loc zone \<and> zoneKey userId zone \<notin> notifiedZones s
        \<and> zoneKey userId zone \<in> adminNotified s \<longrightarrow>
        zone_callback loc userId username now zone s
          = (s\<lparr>notifiedZones := insert (zoneKey userId zone) (notifiedZones s)\<rparr>, [Toast_Entered zone]))
   \<and> (isInZone loc zone \<longrightarrow>
        snd (zone_callback loc userId username now zone (clearNotifications s))
          = [Toast_Entered zone, Admin_Alert userId zone]
        \<and> length (dangerZoneAlerts (fst (zone_callback loc userId username now zone
                     (clearNotifications s)))) = length (dangerZoneAlerts s) + 1)"
    by (simp add: zone_callback_def clearNotifications_def Let_def)
  from session steps show ?thesis
    by blast
qed

theorem one_admin_alert_per_key_witness:
  "(let z = \<lparr>zone_id = ''Z1'', zone_name = ''Far side'', zone_lat = 0, zone_lng = 180,
             zone_radius = 1000, zone_level = Level_high\<rparr>;
        inside = \<lparr>c_userLocation = Some \<lparr>loc_lat = 0, loc_lng = 180\<rparr>, c_userId = ''TID-1'',
                  c_username = ''ann'', c_now = 5, c_dangerZones = [z]\<rparr>;
        outside = \<lparr>c_userLocation = Some \<lparr>loc_lat = 0, loc_lng = 0\<rparr>, c_userId = ''TID-1'',
                   c_username = ''ann'', c_now = 6, c_dangerZones = [z]\<rparr>;
        r = hook_run [inside, outside, inside\<lparr>c_now := 7\<rparr>] (hook_init [])
    in snd r = [Toast_Entered z, Admin_Alert ''TID-1'' z, Toast_Left z, Toast_Entered z]
     \<and> map da_id (dangerZoneAlerts (fst r)) = [(zoneKey ''TID-1'' z, 5)]
     \<and> length (filter (\<lambda>a. fst (da_id a) = zoneKey ''TID-1'' z)
                 (drop (length (dangerZoneAlerts (hook_init []))) (dangerZoneAlerts (fst r)))) \<le> 1)"
  using one_admin_alert_per_key [where st = "hook_init []" and userId = "''TID-1''"
      and zone = "\<lparr>zone_id = ''Z1'', zone_name = ''Far side'', zone_lat = 0, zone_lng = 180,
             zone_radius = 1000, zone_level = Level_high\<rparr>"
      and calls = "[\<lparr>c_userLocation = Some \<lparr>loc_lat = 0, loc_lng = 180\<rparr>, c_userId = ''TID-1'',
                  c_username = ''ann'', c_now = 5, c_dangerZones = [\<lparr>zone_id = ''Z1'', zone_name = ''Far side'', zone_lat = 0, zone_lng = 180,
             zone_radius = 1000, zone_level = Level_high\<rparr>]\<rparr>,
             \<lparr>c_userLocation = Some \<lparr>loc_lat = 0, loc_lng = 0\<rparr>, c_userId = ''TID-1'',
                   c_username = ''ann'', c_now = 6, c_dangerZones = [\<lparr>zone_id = ''Z1'', zone_name = ''Far side'', zone_lat = 0, zone_lng = 180,
             zone_radius = 1000, zone_level = Level_high\<rparr>]\<rparr>,
             \<lparr>c_userLocation = Some \<lparr>loc_lat = 0, loc_lng = 180\<rparr>, c_userId = ''TID-1'',
                  c_username = ''ann'', c_now = 7, c_dangerZones = [\<lparr>zone_id = ''Z1'', zone_name = ''Far side'', zone_lat = 0, zone_lng = 180,
             zone_radius = 1000, zone_level = Level_high\<rparr>]\<rparr>]", THEN conjunct1]
  by (simp add: Let_def hook_init_def useEffect_run_def zone_callback_def isInZone_def
      calculateDistance_self calculateDistance_antipodal far_apart zoneKey_def)

section \<open>Repeated calls\<close>

lemma alert_inserts_simps [simp]:
  "alert_inserts [] = []"
  "alert_inserts (Insert_alert a # reqs) = a # alert_inserts reqs"
  "alert_inserts (Select_danger_zones # reqs) = alert_inserts reqs"
  "alert_inserts (Upsert_user_location u t x y # reqs) = alert_inserts reqs"
  by (simp_all add: alert_inserts_def)

lemma alert_inserts_append: "alert_inserts (xs @ ys) = alert_inserts xs @ alert_inserts ys"
  by (simp add: alert_inserts_def)

lemma alert_inserts_zone_loop:
  "alert_inserts (zone_loop body data rows) =
     map (entered_alert body data)
       (filter (\<lambda>z. calculateDistance_server (b_lat body) (b_lng body) (zr_lat z) (zr_lng z)
                        \<le> zr_radius z) rows)"
  by (induction rows) simp_all

lemma alert_inserts_post:
  "alert_inserts (snd (post_api_locations body (Inr data) (Some rows))) =
     map (entered_alert body data)
       (filter (\<lambda>z. calculateDistance_server (b_lat body) (b_lng body) (zr_lat z) (zr_lng z)
                        \<le> zr_radius z) rows)"
  by (simp add: post_api_locations_def alert_inserts_zone_loop)

text \<open>
  C4, as stated, fails on the backend handler: the same request sent twice, against the
  same zone, has the alert insert issued on the second call as on the first.
\<close>

theorem repeated_request_alerts_again:
  "alert_inserts (api_session
     [(\<lparr>b_user_id = ''u1'', b_tourist_id = ''TID-1'', b_lat = 10, b_lng = 20\<rparr>,
       Inr \<lparr>ld_username = None\<rparr>,
       Some [\<lparr>zr_name = ''Harbour'', zr_lat = 10, zr_lng = 20, zr_radius = 1000, zr_level = ''high''\<rparr>]),
      (\<lparr>b_user_id = ''u1'', b_tourist_id = ''TID-1'', b_lat = 10, b_lng = 20\<rparr>,
       Inr \<lparr>ld_username = None\<rparr>,
       Some [\<lparr>zr_name = ''Harbour'', zr_lat = 10, zr_lng = 20, zr_radius = 1000, zr_level = ''high''\<rparr>])])
   = [\<lparr>ar_user_id = ''u1'', ar_tourist_id = ''TID-1'', ar_username = ''Unknown'',
       ar_status = ''danger'', ar_alert_type = ''entered_danger_zone'', ar_lat = 10, ar_lng = 20,
       ar_zone_name = ''Harbour'', ar_zone_level = ''high''\<rparr>,
      \<lparr>ar_user_id = ''u1'', ar_tourist_id = ''TID-1'', ar_username = ''Unknown'',
       ar_status = ''danger'', ar_alert_type = ''entered_danger_zone'', ar_lat = 10, ar_lng = 20,
       ar_zone_name = ''Harbour'', ar_zone_level = ''high''\<rparr>]"
  by (simp add: alert_inserts_append alert_inserts_post calculateDistance_server_self
      entered_alert_def)

text \<open>
  C4, amended: in the hook, a run of the effect with a location and a zone list of pairwise
  distinct ids, followed at once by a run for the same user, location and zones, has the
  second run return the state of the first unchanged, with no toast and no admin alert.
  The backend handler keeps no state: on each of two identical calls it issues one alert
  insert for every zone that contains the position.
\<close>

theorem second_run_is_silent:
  "(distinct (map zone_id zones) \<longrightarrow>
      (let c = \<lparr>c_userLocation = Some loc, c_userId = userId, c_username = username,
                c_now = now, c_dangerZones = zones\<rparr>;
           r1 = useEffect_run c st
       in useEffect_run (c\<lparr>c_username := username', c_now := now'\<rparr>) (fst r1) = (fst r1, [])))
   \<and> alert_inserts (api_session [(body, Inr data, Some rows), (body, Inr data, Some rows)])
       = map (entered_alert body data)
           (filter (\<lambda>z. calculateDistance_server (b_lat body) (b_lng body) (zr_lat z) (zr_lng z)
                            \<le> zr_radius z) rows)
         @ map (entered_alert body data)
           (filter (\<lambda>z. calculateDistance_server (b_lat body) (b_lng body) (zr_lat z) (zr_lng z)
                            \<le> zr_radius z) rows)"
proof -
  have hook: "useEffect_run
        (\<lparr>c_userLocation = Some loc, c_userId = userId, c_username = username,
          c_now = now, c_dangerZones = zones\<rparr>\<lparr>c_username := username', c_now := now'\<rparr>)
        (fst (useEffect_run \<lparr>c_userLocation = Some loc, c_userId = userId, c_username = username,
                c_now = now, c_dangerZones = zones\<rparr> st))
      = (fst (useEffect_run \<lparr>c_userLocation = Some loc, c_userId = userId, c_username = username,
                c_now = now, c_dangerZones = zones\<rparr> st), [])"
    if d: "distinct (map zone_id zones)"
  proof -
    define st1 where "st1 = fst (forEach_zone loc userId username now zones st)"
    have "\<forall>z\<in>set zones. isInZone loc z \<longleftrightarrow> zoneKey userId z \<in> notifiedZones st1"
      using forEach_zone_notified [OF d] by (simp add: st1_def)
    then have "forEach_zone loc userId username' now' zones st1 = (st1, [])"
      by (rule forEach_zone_noop)
    then show ?thesis
      by (simp add: useEffect_run_def st1_def)
  qed
  have server: "alert_inserts (api_session [(body, Inr data, Some rows), (body, Inr data, Some rows)])
       = map (entered_alert body data)
           (filter (\<lambda>z. calculateDistance_server (b_lat body) (b_lng body) (zr_lat z) (zr_lng z)
                            \<le> zr_radius z) rows)
         @ map (entered_alert body data)
           (filter (\<lambda>z. calculateDistance_server (b_lat body) (b_lng body) (zr_lat z) (zr_lng z)
                            \<le> zr_radius z) rows)"
    by (simp add: alert_inserts_append alert_inserts_post)
  from hook server show ?thesis
    by (simp add: Let_def)
qed

theorem second_run_is_silent_witness:
  "distinct (map zone_id [\<lparr>zone_id = ''Z1'', zone_name = ''Harbour'', zone_lat = 10, zone_lng = 20,
        zone_radius = 1000, zone_level = Level_high\<rparr>]) \<and>
   snd (useEffect_run
          \<lparr>c_userLocation = Some \<lparr>loc_lat = 10, loc_lng = 20\<rparr>, c_userId = ''TID-1'',
           c_username = ''ann'', c_now = 5,
           c_dangerZones = [\<lparr>zone_id = ''Z1'', zone_name = ''Harbour'', zone_lat = 10,
              zone_lng = 20, zone_radius = 1000, zone_level = Level_high\<rparr>]\<rparr> (hook_init []))
     = [Toast_Entered \<lparr>zone_id = ''Z1'', zone_name = ''Harbour'', zone_lat = 10,
              zone_lng = 20, zone_radius = 1000, zone_level = Level_high\<rparr>,
        Admin_Alert ''TID-1'' \<lparr>zone_id = ''Z1'', zone_name = ''Harbour'', zone_lat = 10,
              zone_lng = 20, zone_radius = 1000, zone_level = Level_high\<rparr>] \<and>
   snd (useEffect_run
          \<lparr>c_userLocation = Some \<lparr>loc_lat = 10, loc_lng = 20\<rparr>, c_userId = ''TID-1'',
           c_username = ''ann'', c_now = 6,
           c_dangerZones = [\<lparr>zone_id = ''Z1'', zone_name = ''Harbour'', zone_lat = 10,
              zone_lng = 20, zone_radius = 1000, zone_level = Level_high\<rparr>]\<rparr>
          (fst (useEffect_run
          \<lparr>c_userLocation = Some \<lparr>loc_lat = 10, loc_lng = 20\<rparr>, c_userId = ''TID-1'',
           c_username = ''ann'', c_now = 5,
           c_dangerZones = [\<lparr>zone_id = ''Z1'', zone_name = ''Harbour'', zone_lat = 10,
              zone_lng = 20, zone_radius = 1000, zone_level = Level_high\<rparr>]\<rparr> (hook_init []))))
     = []"
  using second_run_is_silent [where st = "hook_init []" and userId = "''TID-1''"
      and username = "''ann''" and username' = "''ann''" and now = 5 and now' = 6
      and loc = "\<lparr>loc_lat = 10, loc_lng = 20\<rparr>"
      and zones = "[\<lparr>zone_id = ''Z1'', zone_name = ''Harbour'', zone_lat = 10, zone_lng = 20,
        zone_radius = 1000, zone_level = Level_high\<rparr>]", THEN conjunct1]
  by (simp add: Let_def useEffect_run_def zone_callback_def isInZone_def calculateDistance_self
      hook_init_def)

section \<open>Several zones at once\<close>

lemma checkDangerZoneEntry_from_skip:
  assumes "\<forall>z\<in>set pre. \<not> z_isActive z \<or>
             (\<exists>d r. distanceSquared latitude longitude z = Some d \<and> radiusSquared z = Some r
                    \<and> \<not> d \<le> r)"
  shows "checkDangerZoneEntry_from tourist latitude longitude now (pre @ rest) st =
         checkDangerZoneEntry_from tourist latitude longitude now rest st"
  using assms by (induction pre) auto

text \<open>
  C5, as stated, fails on the backend handler: for a position inside two zones it issues
  two alert inserts, one per zone, not one.
\<close>

theorem two_zones_two_alerts:
  "alert_inserts (snd (post_api_locations
      \<lparr>b_user_id = ''u1'', b_tourist_id = ''TID-1'', b_lat = 10, b_lng = 20\<rparr>
      (Inr \<lparr>ld_username = None\<rparr>)
      (Some [\<lparr>zr_name = ''Harbour'', zr_lat = 10, zr_lng = 20, zr_radius = 1000, zr_level = ''high''\<rparr>,
             \<lparr>zr_name = ''Old town'', zr_lat = 10, zr_lng = 20, zr_radius = 500, zr_level = ''low''\<rparr>])))
   = [\<lparr>ar_user_id = ''u1'', ar_tourist_id = ''TID-1'', ar_username = ''Unknown'',
       ar_status = ''danger'', ar_alert_type = ''entered_danger_zone'', ar_lat = 10, ar_lng = 20,
       ar_zone_name = ''Harbour'', ar_zone_level = ''high''\<rparr>,
      \<lparr>ar_user_id = ''u1'', ar_tourist_id = ''TID-1'', ar_username = ''Unknown'',
       ar_status = ''danger'', ar_alert_type = ''entered_danger_zone'', ar_lat = 10, ar_lng = 20,
       ar_zone_name = ''Old town'', ar_zone_level = ''low''\<rparr>]"
  by (simp add: alert_inserts_post calculateDistance_server_self entered_alert_def)

text \<open>
  C5, amended: on the contract, when the tourist's status is Safe and the position is
  within one or more active zones (the arithmetic and the counters not overflowing),
  \<^verbatim>\<open>_checkDangerZoneEntry\<close> appends exactly one alert, for the first active zone in array
  order that contains the position, sets the status to Alert and visits no later zone; it
  records nothing per zone. The backend handler issues one alert insert for every zone
  that contains the position, in the order of the zone list.
\<close>

theorem one_alert_for_first_zone:
  "((\<forall>z\<in>set pre. \<not> z_isActive z \<or>
        (\<exists>d r. distanceSquared latitude longitude z = Some d \<and> radiusSquared z = Some r
               \<and> \<not> d \<le> r))
     \<and> z_isActive zone \<and> distanceSquared latitude longitude zone = Some dsq
     \<and> radiusSquared zone = Some rsq \<and> dsq \<le> rsq
     \<and> t_status (tourists st tourist) = Safe
     \<and> alertCounter st < uint256_max \<and> alertCount st < uint256_max
    \<longrightarrow> (\<exists>st'. checkDangerZoneEntry_from tourist latitude longitude now (pre @ zone # post) st = Inr st'
          \<and> (\<exists>a. alerts st' = alerts st @ [a] \<and> a_zoneName a = z_name zone
                \<and> a_zoneLevel a = z_level zone \<and> a_status a = Alert \<and> a_tourist a = tourist
                \<and> \<not> a_isDismissed a)
          \<and> t_status (tourists st' tourist) = Alert
          \<and> checkDangerZoneEntry_from tourist latitude longitude now (pre @ zone # post) st
              = checkDangerZoneEntry_from tourist latitude longitude now [zone] st))
   \<and> alert_inserts (snd (post_api_locations body (Inr data) (Some rows)))
       = map (entered_alert body data)
           (filter (\<lambda>z. calculateDistance_server (b_lat body) (b_lng body) (zr_lat z) (zr_lng z)
                            \<le> zr_radius z) rows)"
proof -
  have sol: "\<exists>st'. checkDangerZoneEntry_from tourist latitude longitude now (pre @ zone # post) st = Inr st'
          \<and> (\<exists>a. alerts st' = alerts st @ [a] \<and> a_zoneName a = z_name zone
                \<and> a_zoneLevel a = z_level zone \<and> a_status a = Alert \<and> a_tourist a = tourist
                \<and> \<not> a_isDismissed a)
          \<and> t_status (tourists st' tourist) = Alert
          \<and> checkDangerZoneEntry_from tourist latitude longitude now (pre @ zone # post) st
              = checkDangerZoneEntry_from tourist latitude longitude now [zone] st"
    if pre: "\<forall>z\<in>set pre. \<not> z_isActive z \<or>
        (\<exists>d r. distanceSquared latitude longitude z = Some d \<and> radiusSquared z = Some r
               \<and> \<not> d \<le> r)"
      and zone: "z_isActive zone" "distanceSquared latitude longitude zone = Some dsq"
        "radiusSquared zone = Some rsq" "dsq \<le> rsq"
      and safe: "t_status (tourists st tourist) = Safe"
      and room: "alertCounter st < uint256_max" "alertCount st < uint256_max"
  proof -
    define st1 where "st1 = st\<lparr>tourists := (tourists st)
                                (tourist := (tourists st tourist)\<lparr>t_status := Alert\<rparr>)\<rparr>"
    have stop: "checkDangerZoneEntry_from tourist latitude longitude now (zone # zs) st
          = createEmergencyAlert tourist Alert (z_name zone) (z_level zone) now st1" for zs
      using zone safe by (simp add: st1_def)
    have skip: "checkDangerZoneEntry_from tourist latitude longitude now (pre @ zone # post) st
          = checkDangerZoneEntry_from tourist latitude longitude now (zone # post) st"
      using pre by (rule checkDangerZoneEntry_from_skip)
    obtain st' where st': "createEmergencyAlert tourist Alert (z_name zone) (z_level zone) now st1 = Inr st'"
      using room by (simp add: createEmergencyAlert_def st1_def Let_def)
    from createEmergencyAlert_appends [OF st']
    have a: "\<exists>a. alerts st' = alerts st @ [a] \<and> a_zoneName a = z_name zone
                \<and> a_zoneLevel a = z_level zone \<and> a_status a = Alert \<and> a_tourist a = tourist
                \<and> \<not> a_isDismissed a"
      by (auto simp add: st1_def)
    have "t_status (tourists st' tourist) = Alert"
      using st' room by (auto simp add: createEmergencyAlert_def st1_def Let_def)
    with skip stop st' a show ?thesis
      by simp
  qed
  then show ?thesis
    by (simp add: alert_inserts_post)
qed

theorem one_alert_for_first_zone_witness:
  "(case checkDangerZoneEntry_from 2 6 8 7
      ([\<lparr>z_zoneId = ''ZONE-1'', z_name = ''Closed'', z_latitude = 0, z_longitude = 0,
         z_radius = 5, z_level = Low, z_createdBy = 1, z_createdAt = 0, z_isActive = False\<rparr>] @
       \<lparr>z_zoneId = ''ZONE-2'', z_name = ''Pier'', z_latitude = 0, z_longitude = 0,
         z_radius = 1, z_level = High, z_createdBy = 1, z_createdAt = 0, z_isActive = True\<rparr> #
       [\<lparr>z_zoneId = ''ZONE-3'', z_name = ''Bay'', z_latitude = 0, z_longitude = 0,
         z_radius = 9, z_level = Medium, z_createdBy = 1, z_createdAt = 0, z_isActive = True\<rparr>])
      (constructor 1)
    of Inl e \<Rightarrow> [] | Inr s \<Rightarrow> map a_zoneName (alerts s)) = [''Pier'']"
  using one_alert_for_first_zone [where tourist = 2 and latitude = 6 and longitude = 8 and now = 7
      and st = "constructor 1" and dsq = 100 and rsq = 100
      and pre = "[\<lparr>z_zoneId = ''ZONE-1'', z_name = ''Closed'', z_latitude = 0, z_longitude = 0,
         z_radius = 5, z_level = Low, z_createdBy = 1, z_createdAt = 0, z_isActive = False\<rparr>]"
      and zone = "\<lparr>z_zoneId = ''ZONE-2'', z_name = ''Pier'', z_latitude = 0, z_longitude = 0,
         z_radius = 1, z_level = High, z_createdBy = 1, z_createdAt = 0, z_isActive = True\<rparr>"
      and post = "[\<lparr>z_zoneId = ''ZONE-3'', z_name = ''Bay'', z_latitude = 0, z_longitude = 0,
         z_radius = 9, z_level = Medium, z_createdBy = 1, z_createdAt = 0, z_isActive = True\<rparr>]",
      THEN conjunct1]
  by (simp add: distanceSquared_def radiusSquared_def checked_int256_def checked_uint256_def
      uint256_max_def int256_of_uint256_def constructor_def empty_tourist_def
      createEmergencyAlert_def Let_def)

section \<open>The prior status\<close>

lemma checkDangerZoneEntry_from_elevated:
  "t_status (tourists st tourist) \<noteq> Safe \<Longrightarrow>
   checkDangerZoneEntry_from tourist latitude longitude now zones st = Inr st
   \<or> checkDangerZoneEntry_from tourist latitude longitude now zones st = Inl Panic_arithmetic"
  by (induction zones) (auto split: option.splits)

lemma checkDangerZoneEntry_from_changes:
  "checkDangerZoneEntry_from tourist latitude longitude now zones st = Inr st' \<Longrightarrow>
   st' = st \<or> (t_status (tourists st tourist) = Safe \<and> t_status (tourists st' tourist) = Alert
              \<and> length (alerts st') = length (alerts st) + 1)"
proof (induction zones)
  case Nil
  then show ?case by simp
next
  case (Cons zone zones)
  then show ?case
    by (auto simp add: createEmergencyAlert_def Let_def split: if_splits option.splits)
qed

text \<open>
  C6, as stated, fails on the hook: the dashboard calls it for a user whose status is
  already danger, and on entering a zone the admin alert is created all the same.
\<close>

theorem elevated_user_still_alerted:
  "useEffect_run
     (dashboard_call (Some \<lparr>u_touristId = ''TID-1'', u_username = ''ann'', u_status = Status_danger\<rparr>)
        (Some \<lparr>loc_lat = 10, loc_lng = 20\<rparr>) 5
        [\<lparr>zone_id = ''Z1'', zone_name = ''Harbour'', zone_lat = 10, zone_lng = 20,
          zone_radius = 1000, zone_level = Level_high\<rparr>])
     (hook_init [])
   = (\<lparr>notifiedZones = {''TID-1-Z1''}, adminNotified = {''TID-1-Z1''},
       dangerZoneAlerts =
         [\<lparr>da_id = (''TID-1-Z1'', 5), da_touristId = ''TID-1'', da_username = ''ann'',
           da_zoneName = ''Harbour'', da_zoneLevel = Level_high, da_timestamp = 5,
           da_location = \<lparr>loc_lat = 10, loc_lng = 20\<rparr>, da_type = ''danger_zone_entry''\<rparr>]\<rparr>,
      [Toast_Entered \<lparr>zone_id = ''Z1'', zone_name = ''Harbour'', zone_lat = 10, zone_lng = 20,
          zone_radius = 1000, zone_level = Level_high\<rparr>,
       Admin_Alert ''TID-1'' \<lparr>zone_id = ''Z1'', zone_name = ''Harbour'', zone_lat = 10, zone_lng = 20,
          zone_radius = 1000, zone_level = Level_high\<rparr>])"
  by (simp add: dashboard_call_def useEffect_run_def zone_callback_def isInZone_def
      calculateDistance_self hook_init_def zoneKey_def Let_def)

text \<open>
  C6, amended: only the contract consults the prior status. \<^verbatim>\<open>_checkDangerZoneEntry\<close> for
  a tourist whose status is Alert or Danger changes nothing (it returns the state as it
  was, or panics on overflow), and whenever it does change the state the status was Safe,
  is Alert afterwards, and exactly one alert was appended; it returns no transition. The
  hook is not given the status: the run of the effect is the same whatever the status of
  the user, and entering a zone whose key is in neither set gives the entry toast and the
  admin alert.
\<close>

theorem alert_only_from_safe_on_chain:
  "(t_status (tourists st tourist) \<noteq> Safe \<longrightarrow>
      checkDangerZoneEntry_from tourist latitude longitude now zones st = Inr st
      \<or> checkDangerZoneEntry_from tourist latitude longitude now zones st = Inl Panic_arithmetic)
   \<and> (checkDangerZoneEntry_from tourist latitude longitude now zones st = Inr st' \<and> st' \<noteq> st \<longrightarrow>
        t_status (tourists st tourist) = Safe \<and> t_status (tourists st' tourist) = Alert
        \<and> length (alerts st') = length (alerts st) + 1)
   \<and> useEffect_run (dashboard_call (Some (u\<lparr>u_status := status\<rparr>)) location ts dzones) hst
       = useEffect_run (dashboard_call (Some u) location ts dzones) hst
   \<and> (isInZone loc z \<and> zoneKey (u_touristId u) z \<notin> notifiedZones hst
        \<and> zoneKey (u_touristId u) z \<notin> adminNotified hst \<longrightarrow>
        snd (zone_callback loc (u_touristId u) (u_username u) ts z hst)
          = [Toast_Entered z, Admin_Alert (u_touristId u) z])"
proof -
  have 1: "t_status (tourists st tourist) \<noteq> Safe \<longrightarrow>
      checkDangerZoneEntry_from tourist latitude longitude now zones st = Inr st
      \<or> checkDangerZoneEntry_from tourist latitude longitude now zones st = Inl Panic_arithmetic"
    using checkDangerZoneEntry_from_elevated by blast
  have 2: "checkDangerZoneEntry_from tourist latitude longitude now zones st = Inr st' \<and> st' \<noteq> st \<longrightarrow>
        t_status (tourists st tourist) = Safe \<and> t_status (tourists st' tourist) = Alert
        \<and> length (alerts st') = length (alerts st) + 1"
    using checkDangerZoneEntry_from_changes by blast
  have 3: "useEffect_run (dashboard_call (Some (u\<lparr>u_status := status\<rparr>)) location ts dzones) hst
       = useEffect_run (dashboard_call (Some u) location ts dzones) hst"
    by (simp add: dashboard_call_def)
  have 4: "isInZone loc z \<and> zoneKey (u_touristId u) z \<notin> notifiedZones hst
        \<and> zoneKey (u_touristId u) z \<notin> adminNotified hst \<longrightarrow>
        snd (zone_callback loc (u_touristId u) (u_username u) ts z hst)
          = [Toast_Entered z, Admin_Alert (u_touristId u) z]"
    by (simp add: zone_callback_def Let_def)
  from 1 2 3 4 show ?thesis
    by blast
qed

theorem alert_only_from_safe_on_chain_witness:
  "t_status (tourists ((constructor 1)\<lparr>tourists := (\<lambda>_. empty_tourist)
       (2 := empty_tourist\<lparr>t_status := Danger\<rparr>)\<rparr>) 2) \<noteq> Safe
   \<and> checkDangerZoneEntry_from 2 6 8 7
       [\<lparr>z_zoneId = ''ZONE-1'', z_name = ''Pier'', z_latitude = 0, z_longitude = 0,
         z_radius = 1, z_level = High, z_createdBy = 1, z_createdAt = 0, z_isActive = True\<rparr>]
       ((constructor 1)\<lparr>tourists := (\<lambda>_. empty_tourist)(2 := empty_tourist\<lparr>t_status := Danger\<rparr>)\<rparr>)
     = Inr ((constructor 1)\<lparr>tourists := (\<lambda>_. empty_tourist)(2 := empty_tourist\<lparr>t_status := Danger\<rparr>)\<rparr>)"
  using alert_only_from_safe_on_chain [where tourist = 2 and latitude = 6 and longitude = 8
      and now = 7
      and zones = "[\<lparr>z_zoneId = ''ZONE-1'', z_name = ''Pier'', z_latitude = 0, z_longitude = 0,
         z_radius = 1, z_level = High, z_createdBy = 1, z_createdAt = 0, z_isActive = True\<rparr>]"
      and st = "(constructor 1)\<lparr>tourists := (\<lambda>_. empty_tourist)(2 := empty_tourist\<lparr>t_status := Danger\<rparr>)\<rparr>",
      THEN conjunct1]
  by (simp add: distanceSquared_def radiusSquared_def checked_int256_def checked_uint256_def
      uint256_max_def int256_of_uint256_def empty_tourist_def)


section \<open>Crossing a boundary\<close>

lemma transitions_for_append [simp]:
  "transitions_for z (xs @ ys) = transitions_for z xs @ transitions_for z ys"
  by (simp add: transitions_for_def)

lemma transitions_for_Nil [simp]: "transitions_for z [] = []"
  by (simp add: transitions_for_def)

lemma zone_callback_transitions_self:
  "transitions_for z (snd (zone_callback loc userId username now z st)) =
     (if isInZone loc z \<and> zoneKey userId z \<notin> notifiedZones st then [Toast_Entered z]
      else if \<not> isInZone loc z \<and> zoneKey userId z \<in> notifiedZones st then [Toast_Left z]
      else [])"
  by (simp add: zone_callback_def transitions_for_def Let_def)

lemma zone_callback_transitions_other:
  "z \<noteq> y \<Longrightarrow> transitions_for z (snd (zone_callback loc userId username now y st)) = []"
  by (auto simp add: zone_callback_def transitions_for_def Let_def)

lemma forEach_zone_transitions_absent:
  "z \<notin> set zones \<Longrightarrow>
   transitions_for z (snd (forEach_zone loc userId username now zones st)) = []"
proof (induction zones arbitrary: st)
  case Nil
  then show ?case by simp
next
  case (Cons y ys)
  then show ?case
    by (simp add: split_beta Let_def zone_callback_transitions_other)
qed

lemma forEach_zone_transitions:
  "distinct (map zone_id zones) \<Longrightarrow> z \<in> set zones \<Longrightarrow>
   transitions_for z (snd (forEach_zone loc userId username now zones st)) =
     (if isInZone loc z \<and> zoneKey userId z \<notin> notifiedZones st then [Toast_Entered z]
      else if \<not> isInZone loc z \<and> zoneKey userId z \<in> notifiedZones st then [Toast_Left z]
      else [])"
proof (induction zones arbitrary: st)
  case Nil
  then show ?case by simp
next
  case (Cons y ys)
  show ?case
  proof (cases "z = y")
    case True
    have "z \<notin> set ys"
      using Cons.prems(1) True by auto
    then show ?thesis
      using True
      by (simp add: split_beta Let_def forEach_zone_transitions_absent
          zone_callback_transitions_self)
  next
    case False
    with Cons.prems have z: "z \<in> set ys" and d: "distinct (map zone_id ys)"
      and id: "zone_id y \<noteq> zone_id z"
      by auto
    have key: "zoneKey userId z \<noteq> zoneKey userId y"
      using id by (simp add: zoneKey_eq_iff)
    have same: "zoneKey userId z \<in> notifiedZones (fst (zone_callback loc userId username now y st))
        \<longleftrightarrow> zoneKey userId z \<in> notifiedZones st"
      using key by (rule zone_callback_other)
    show ?thesis
      using False same Cons.IH [OF d z, of "fst (zone_callback loc userId username now y st)"]
      by (simp add: split_beta Let_def zone_callback_transitions_other)
  qed
qed

lemma call_outside_iff:
  "evaluates userId z c \<Longrightarrow> call_outside z c \<longleftrightarrow> \<not> call_inside z c"
  by (auto simp add: evaluates_def call_inside_def call_outside_def)

lemma useEffect_run_transitions:
  assumes "evaluates userId z c"
  shows "transitions_for z (snd (useEffect_run c st)) =
     (if call_inside z c \<and> zoneKey userId z \<notin> notifiedZones st then [Toast_Entered z]
      else if call_outside z c \<and> zoneKey userId z \<in> notifiedZones st then [Toast_Left z]
      else [])"
proof -
  from assms obtain loc where loc: "c_userLocation c = Some loc"
    and d: "distinct (map zone_id (c_dangerZones c))" and z: "z \<in> set (c_dangerZones c)"
    and u: "c_userId c = userId"
    by (auto simp add: evaluates_def)
  show ?thesis
    using forEach_zone_transitions [OF d z, of loc userId "c_username c" "c_now c" st] loc u
    by (simp add: useEffect_run_def call_inside_def call_outside_def)
qed

lemma useEffect_run_notified:
  assumes "evaluates userId z c"
  shows "zoneKey userId z \<in> notifiedZones (fst (useEffect_run c st)) \<longleftrightarrow> call_inside z c"
proof -
  from assms obtain loc where loc: "c_userLocation c = Some loc"
    and d: "distinct (map zone_id (c_dangerZones c))" and z: "z \<in> set (c_dangerZones c)"
    and u: "c_userId c = userId"
    by (auto simp add: evaluates_def)
  show ?thesis
    using forEach_zone_notified [OF d z, of userId loc "c_username c" "c_now c" st] loc u
    by (simp add: useEffect_run_def call_inside_def)
qed

lemma hook_run_append:
  "hook_run (xs @ ys) st =
     (fst (hook_run ys (fst (hook_run xs st))),
      snd (hook_run xs st) @ snd (hook_run ys (fst (hook_run xs st))))"
  by (induction xs arbitrary: st) (simp_all add: split_beta Let_def)

lemma hook_run_stay_inside:
  "\<forall>c\<in>set cs. evaluates userId z c \<and> call_inside z c \<Longrightarrow>
   zoneKey userId z \<in> notifiedZones st \<Longrightarrow>
   transitions_for z (snd (hook_run cs st)) = []
   \<and> zoneKey userId z \<in> notifiedZones (fst (hook_run cs st))"
proof (induction cs arbitrary: st)
  case Nil
  then show ?case by simp
next
  case (Cons c cs)
  then have c: "evaluates userId z c" "call_inside z c"
    by simp_all
  have 1: "transitions_for z (snd (useEffect_run c st)) = []"
    using useEffect_run_transitions [OF c(1), of st] call_outside_iff [OF c(1)] c(2) Cons.prems(2) by simp
  have 2: "zoneKey userId z \<in> notifiedZones (fst (useEffect_run c st))"
    using useEffect_run_notified [OF c(1), of st] c(2) by simp
  from Cons.IH [OF _ 2] Cons.prems(1) 1 show ?case
    by (simp add: split_beta Let_def)
qed

lemma hook_run_stay_outside:
  "\<forall>c\<in>set cs. evaluates userId z c \<and> call_outside z c \<Longrightarrow>
   zoneKey userId z \<notin> notifiedZones st \<Longrightarrow>
   transitions_for z (snd (hook_run cs st)) = []
   \<and> zoneKey userId z \<notin> notifiedZones (fst (hook_run cs st))"
proof (induction cs arbitrary: st)
  case Nil
  then show ?case by simp
next
  case (Cons c cs)
  then have c: "evaluates userId z c" "call_outside z c"
    by simp_all
  have 1: "transitions_for z (snd (useEffect_run c st)) = []"
    using useEffect_run_transitions [OF c(1), of st] call_outside_iff [OF c(1)] c(2) Cons.prems(2) by simp
  have 2: "zoneKey userId z \<notin> notifiedZones (fst (useEffect_run c st))"
    using useEffect_run_notified [OF c(1), of st] call_outside_iff [OF c(1)] c(2) by simp
  from Cons.IH [OF _ 2] Cons.prems(1) 1 show ?case
    by (simp add: split_beta Let_def)
qed

lemma hook_run_leave:
  assumes "\<forall>c\<in>set cs. evaluates userId z c \<and> call_outside z c" and "cs \<noteq> []"
    and "zoneKey userId z \<in> notifiedZones st"
  shows "transitions_for z (snd (hook_run cs st)) = [Toast_Left z]
   \<and> zoneKey userId z \<notin> notifiedZones (fst (hook_run cs st))"
proof -
  from assms(2) obtain c rest where cs: "cs = c # rest"
    by (cases cs) auto
  with assms(1) have c: "evaluates userId z c" "call_outside z c"
    and rest: "\<forall>c\<in>set rest. evaluates userId z c \<and> call_outside z c"
    by simp_all
  have 1: "transitions_for z (snd (useEffect_run c st)) = [Toast_Left z]"
    using useEffect_run_transitions [OF c(1), of st] call_outside_iff [OF c(1)] c(2) assms(3) by simp
  have 2: "zoneKey userId z \<notin> notifiedZones (fst (useEffect_run c st))"
    using useEffect_run_notified [OF c(1), of st] call_outside_iff [OF c(1)] c(2) by simp
  from hook_run_stay_outside [OF rest 2] 1 show ?thesis
    by (simp add: cs split_beta Let_def)
qed

lemma hook_run_enter:
  assumes "\<forall>c\<in>set cs. evaluates userId z c \<and> call_inside z c" and "cs \<noteq> []"
    and "zoneKey userId z \<notin> notifiedZones st"
  shows "transitions_for z (snd (hook_run cs st)) = [Toast_Entered z]
   \<and> zoneKey userId z \<in> notifiedZones (fst (hook_run cs st))"
proof -
  from assms(2) obtain c rest where cs: "cs = c # rest"
    by (cases cs) auto
  with assms(1) have c: "evaluates userId z c" "call_inside z c"
    and rest: "\<forall>c\<in>set rest. evaluates userId z c \<and> call_inside z c"
    by simp_all
  have 1: "transitions_for z (snd (useEffect_run c st)) = [Toast_Entered z]"
    using useEffect_run_transitions [OF c(1), of st] call_outside_iff [OF c(1)] c(2) assms(3) by simp
  have 2: "zoneKey userId z \<in> notifiedZones (fst (useEffect_run c st))"
    using useEffect_run_notified [OF c(1), of st] c(2) by simp
  from hook_run_stay_inside [OF rest 2] 1 show ?thesis
    by (simp add: cs split_beta Let_def)
qed

lemma checkDangerZoneEntry_from_outside:
  "\<forall>z\<in>set zones. \<not> z_isActive z \<or>
      (\<exists>d r. distanceSquared latitude longitude z = Some d \<and> radiusSquared z = Some r \<and> \<not> d \<le> r)
   \<Longrightarrow> checkDangerZoneEntry_from tourist latitude longitude now zones st = Inr st"
  using checkDangerZoneEntry_from_skip [of zones latitude longitude tourist now "[]" st]
  by simp


lemma updateLocation_outside:
  assumes "onlyRegisteredTourist sender st"
    and "\<forall>zone\<in>set (dangerZones st). \<not> z_isActive zone \<or>
          (\<exists>d r. distanceSquared latitude longitude zone = Some d \<and> radiusSquared zone = Some r
                 \<and> \<not> d \<le> r)"
  shows "updateLocation sender now latitude longitude st =
     Inr (st\<lparr>tourists := (tourists st)(sender :=
                (tourists st sender)\<lparr>t_lastLatitude := latitude, t_lastLongitude := longitude,
                                       t_lastLocationUpdate := now\<rparr>),
              events := events st @
                [LocationUpdated sender (t_touristId (tourists st sender)) latitude longitude now]\<rparr>)"
  using assms
  by (simp add: updateLocation_def checkDangerZoneEntry_def Let_def
      checkDangerZoneEntry_from_outside)

lemma updateLocation_changes:
  assumes "updateLocation sender now latitude longitude st = Inr st'"
  shows "st' = st\<lparr>tourists := (tourists st)(sender :=
                (tourists st sender)\<lparr>t_lastLatitude := latitude, t_lastLongitude := longitude,
                                       t_lastLocationUpdate := now\<rparr>),
              events := events st @
                [LocationUpdated sender (t_touristId (tourists st sender)) latitude longitude now]\<rparr>
         \<or> (t_status (tourists st sender) = Safe \<and> t_status (tourists st' sender) = Alert
            \<and> length (alerts st') = length (alerts st) + 1)"
proof -
  define st1 where "st1 = st\<lparr>tourists := (tourists st)(sender :=
                (tourists st sender)\<lparr>t_lastLatitude := latitude, t_lastLongitude := longitude,
                                       t_lastLocationUpdate := now\<rparr>),
              events := events st @
                [LocationUpdated sender (t_touristId (tourists st sender)) latitude longitude now]\<rparr>"
  from assms have "checkDangerZoneEntry_from sender latitude longitude now (dangerZones st1) st1 = Inr st'"
    by (simp add: updateLocation_def checkDangerZoneEntry_def Let_def st1_def split: if_splits)
  from checkDangerZoneEntry_from_changes [OF this]
  have "st' = st1 \<or> (t_status (tourists st1 sender) = Safe \<and> t_status (tourists st' sender) = Alert
              \<and> length (alerts st') = length (alerts st1) + 1)" .
  moreover have "t_status (tourists st1 sender) = t_status (tourists st sender)"
    "alerts st1 = alerts st"
    by (simp_all add: st1_def)
  ultimately show ?thesis
    by (simp add: st1_def)
qed

text \<open>
  C7, as stated, fails on the contract: a registered tourist enters the only zone (an
  alert is created), moves out of it and comes back. The two later location updates emit
  their \<^verbatim>\<open>LocationUpdated\<close> events and nothing else: no exit is recorded at the outward
  crossing and no entry at the inward one, where the status is already Alert.
\<close>

theorem contract_records_no_exit:
  "drop 4 (events (run_txs (constructor 1)
       [(2, 10, Tx_registerTourist ''ann'' ''ann@example.org'' ''555'' 0 ''TID-0A1B2C-3D4E''),
        (1, 11, Tx_createDangerZone ''Pier'' 0 0 1 High),
        (2, 12, Tx_updateLocation 6 8),
        (2, 13, Tx_updateLocation 1000 0),
        (2, 14, Tx_updateLocation 6 8)]))
     = [LocationUpdated 2 ''TID-0A1B2C-3D4E'' 1000 0 13, LocationUpdated 2 ''TID-0A1B2C-3D4E'' 6 8 14]
   \<and> length (alerts (run_txs (constructor 1)
       [(2, 10, Tx_registerTourist ''ann'' ''ann@example.org'' ''555'' 0 ''TID-0A1B2C-3D4E''),
        (1, 11, Tx_createDangerZone ''Pier'' 0 0 1 High),
        (2, 12, Tx_updateLocation 6 8),
        (2, 13, Tx_updateLocation 1000 0),
        (2, 14, Tx_updateLocation 6 8)])) = 1
   \<and> t_status (tourists (run_txs (constructor 1)
       [(2, 10, Tx_registerTourist ''ann'' ''ann@example.org'' ''555'' 0 ''TID-0A1B2C-3D4E''),
        (1, 11, Tx_createDangerZone ''Pier'' 0 0 1 High),
        (2, 12, Tx_updateLocation 6 8),
        (2, 13, Tx_updateLocation 1000 0),
        (2, 14, Tx_updateLocation 6 8)]) 2) = Alert"
  by (simp add: constructor_def onlyAdmin_def onlyRegisteredTourist_def registerTourist_def
      createDangerZone_def updateLocation_def checkDangerZoneEntry_def createEmergencyAlert_def
      distanceSquared_def radiusSquared_def checked_int256_def checked_uint256_def
      uint256_max_def int256_of_uint256_def empty_tourist_def Let_def)

text \<open>
  C7, amended: in the hook, take a zone that every call of a sequence evaluates for the
  user (each zone list holding it, with pairwise distinct ids), the user being inside at
  the start. If the positions are inside, then outside, then inside again, the zone's
  transitions over the sequence are exactly one Left followed by exactly one Entered: none
  while the positions stay inside, the Left once the outside calls have run, and the
  Entered after it. For a single call, the zone's transition is Entered exactly when the
  position is inside and the key was not notified, Left exactly when it is outside and
  the key was notified, and none otherwise. The contract keeps no membership and records
  no exit: a location update by a registered tourist to a position that no active zone
  contains stores the position, emits \<^verbatim>\<open>LocationUpdated\<close> and changes nothing else; and
  every successful location update either does exactly that or, the tourist's status
  having been Safe, leaves it Alert with exactly one alert more.
\<close>

theorem one_left_then_one_entered:
  "((\<forall>c\<in>set (before @ outward @ inward). evaluates userId z c)
     \<and> (\<forall>c\<in>set before. call_inside z c) \<and> (\<forall>c\<in>set outward. call_outside z c)
     \<and> (\<forall>c\<in>set inward. call_inside z c)
     \<and> outward \<noteq> [] \<and> inward \<noteq> [] \<and> zoneKey userId z \<in> notifiedZones st
    \<longrightarrow> transitions_for z (snd (hook_run (before @ outward @ inward) st))
          = [Toast_Left z, Toast_Entered z]
      \<and> transitions_for z (snd (hook_run before st)) = []
      \<and> transitions_for z (snd (hook_run (before @ outward) st)) = [Toast_Left z])
   \<and> (evaluates userId z c \<longrightarrow>
        transitions_for z (snd (useEffect_run c s)) =
          (if call_inside z c \<and> zoneKey userId z \<notin> notifiedZones s then [Toast_Entered z]
           else if call_outside z c \<and> zoneKey userId z \<in> notifiedZones s then [Toast_Left z]
           else []))
   \<and> (onlyRegisteredTourist sender cst
        \<and> (\<forall>zone\<in>set (dangerZones cst). \<not> z_isActive zone \<or>
              (\<exists>d r. distanceSquared latitude longitude zone = Some d
                     \<and> radiusSquared zone = Some r \<and> \<not> d \<le> r))
      \<longrightarrow> updateLocation sender now latitude longitude cst =
            Inr (cst\<lparr>tourists := (tourists cst)(sender :=
                       (tourists cst sender)\<lparr>t_lastLatitude := latitude,
                          t_lastLongitude := longitude, t_lastLocationUpdate := now\<rparr>),
                     events := events cst @
                       [LocationUpdated sender (t_touristId (tourists cst sender))
                          latitude longitude now]\<rparr>))
   \<and> (updateLocation sender now latitude longitude cst = Inr cst'
      \<longrightarrow> cst' = cst\<lparr>tourists := (tourists cst)(sender :=
                       (tourists cst sender)\<lparr>t_lastLatitude := latitude,
                          t_lastLongitude := longitude, t_lastLocationUpdate := now\<rparr>),
                     events := events cst @
                       [LocationUpdated sender (t_touristId (tourists cst sender))
                          latitude longitude now]\<rparr>
          \<or> (t_status (tourists cst sender) = Safe \<and> t_status (tourists cst' sender) = Alert
             \<and> length (alerts cst') = length (alerts cst) + 1))"
proof -
  have seq: "transitions_for z (snd (hook_run (before @ outward @ inward) st))
          = [Toast_Left z, Toast_Entered z]
      \<and> transitions_for z (snd (hook_run before st)) = []
      \<and> transitions_for z (snd (hook_run (before @ outward) st)) = [Toast_Left z]"
    if ev: "\<forall>c\<in>set (before @ outward @ inward). evaluates userId z c"
      and b: "\<forall>c\<in>set before. call_inside z c" and out: "\<forall>c\<in>set outward. call_outside z c"
      and inw: "\<forall>c\<in>set inward. call_inside z c"
      and ne: "outward \<noteq> []" "inward \<noteq> []" and start: "zoneKey userId z \<in> notifiedZones st"
  proof -
    define s1 where "s1 = fst (hook_run before st)"
    define s2 where "s2 = fst (hook_run outward s1)"
    have "\<forall>c\<in>set before. evaluates userId z c \<and> call_inside z c"
      using ev b by simp
    from hook_run_stay_inside [OF this start]
    have 1: "transitions_for z (snd (hook_run before st)) = []"
      and k1: "zoneKey userId z \<in> notifiedZones s1"
      by (simp_all add: s1_def)
    have "\<forall>c\<in>set outward. evaluates userId z c \<and> call_outside z c"
      using ev out by simp
    from hook_run_leave [OF this ne(1) k1]
    have 2: "transitions_for z (snd (hook_run outward s1)) = [Toast_Left z]"
      and k2: "zoneKey userId z \<notin> notifiedZones s2"
      by (simp_all add: s2_def)
    have "\<forall>c\<in>set inward. evaluates userId z c \<and> call_inside z c"
      using ev inw by simp
    from hook_run_enter [OF this ne(2) k2]
    have 3: "transitions_for z (snd (hook_run inward s2)) = [Toast_Entered z]"
      by simp
    from 1 2 3 show ?thesis
      by (simp add: hook_run_append s1_def s2_def)
  qed
  have one: "evaluates userId z c \<longrightarrow>
        transitions_for z (snd (useEffect_run c s)) =
          (if call_inside z c \<and> zoneKey userId z \<notin> notifiedZones s then [Toast_Entered z]
           else if call_outside z c \<and> zoneKey userId z \<in> notifiedZones s then [Toast_Left z]
           else [])"
    using useEffect_run_transitions by blast
  have out: "onlyRegisteredTourist sender cst
        \<and> (\<forall>zone\<in>set (dangerZones cst). \<not> z_isActive zone \<or>
              (\<exists>d r. distanceSquared latitude longitude zone = Some d
                     \<and> radiusSquared zone = Some r \<and> \<not> d \<le> r))
      \<longrightarrow> updateLocation sender now latitude longitude cst =
            Inr (cst\<lparr>tourists := (tourists cst)(sender :=
                       (tourists cst sender)\<lparr>t_lastLatitude := latitude,
                          t_lastLongitude := longitude, t_lastLocationUpdate := now\<rparr>),
                     events := events cst @
                       [LocationUpdated sender (t_touristId (tourists cst sender))
                          latitude longitude now]\<rparr>)"
    using updateLocation_outside by blast
  have chg: "updateLocation sender now latitude longitude cst = Inr cst'
      \<longrightarrow> cst' = cst\<lparr>tourists := (tourists cst)(sender :=
                       (tourists cst sender)\<lparr>t_lastLatitude := latitude,
                          t_lastLongitude := longitude, t_lastLocationUpdate := now\<rparr>),
                     events := events cst @
                       [LocationUpdated sender (t_touristId (tourists cst sender))
                          latitude longitude now]\<rparr>
          \<or> (t_status (tourists cst sender) = Safe \<and> t_status (tourists cst' sender) = Alert
             \<and> length (alerts cst') = length (alerts cst) + 1)"
    using updateLocation_changes by blast
  from seq one out chg show ?thesis
    by blast
qed

theorem one_left_then_one_entered_witness:
  "transitions_for \<lparr>zone_id = ''Z1'', zone_name = ''Far side'', zone_lat = 0, zone_lng = 180,
        zone_radius = 1000, zone_level = Level_high\<rparr>
     (snd (hook_run ([] @ [\<lparr>c_userLocation = Some \<lparr>loc_lat = 0, loc_lng = 0\<rparr>, c_userId = ''TID-1'',
        c_username = ''ann'', c_now = 6, c_dangerZones = [\<lparr>zone_id = ''Z1'', zone_name = ''Far side'', zone_lat = 0, zone_lng = 180,
        zone_radius = 1000, zone_level = Level_high\<rparr>]\<rparr>] @
        [\<lparr>c_userLocation = Some \<lparr>loc_lat = 0, loc_lng = 180\<rparr>, c_userId = ''TID-1'',
        c_username = ''ann'', c_now = 7, c_dangerZones = [\<lparr>zone_id = ''Z1'', zone_name = ''Far side'', zone_lat = 0, zone_lng = 180,
        zone_radius = 1000, zone_level = Level_high\<rparr>]\<rparr>])
       \<lparr>notifiedZones = {''TID-1-Z1''}, adminNotified = {''TID-1-Z1''}, dangerZoneAlerts = []\<rparr>))
   = [Toast_Left \<lparr>zone_id = ''Z1'', zone_name = ''Far side'', zone_lat = 0, zone_lng = 180,
        zone_radius = 1000, zone_level = Level_high\<rparr>,
      Toast_Entered \<lparr>zone_id = ''Z1'', zone_name = ''Far side'', zone_lat = 0, zone_lng = 180,
        zone_radius = 1000, zone_level = Level_high\<rparr>]"
  using one_left_then_one_entered [where userId = "''TID-1''" and z = "\<lparr>zone_id = ''Z1'', zone_name = ''Far side'', zone_lat = 0, zone_lng = 180,
        zone_radius = 1000, zone_level = Level_high\<rparr>"
      and st = "\<lparr>notifiedZones = {''TID-1-Z1''}, adminNotified = {''TID-1-Z1''}, dangerZoneAlerts = []\<rparr>"
      and before = "[]"
      and outward = "[\<lparr>c_userLocation = Some \<lparr>loc_lat = 0, loc_lng = 0\<rparr>, c_userId = ''TID-1'',
        c_username = ''ann'', c_now = 6, c_dangerZones = [\<lparr>zone_id = ''Z1'', zone_name = ''Far side'', zone_lat = 0, zone_lng = 180,
        zone_radius = 1000, zone_level = Level_high\<rparr>]\<rparr>]"
      and inward = "[\<lparr>c_userLocation = Some \<lparr>loc_lat = 0, loc_lng = 180\<rparr>, c_userId = ''TID-1'',
        c_username = ''ann'', c_now = 7, c_dangerZones = [\<lparr>zone_id = ''Z1'', zone_name = ''Far side'', zone_lat = 0, zone_lng = 180,
        zone_radius = 1000, zone_level = Level_high\<rparr>]\<rparr>]", THEN conjunct1]
  by (simp add: evaluates_def call_inside_def call_outside_def isInZone_def zoneKey_def
      calculateDistance_self calculateDistance_antipodal far_apart)


section \<open>Coordinates out of range\<close>

lemma transitions_for_member:
  "transitions_for z evs = [e] \<Longrightarrow> e \<in> set evs"
proof -
  assume "transitions_for z evs = [e]"
  then have "e \<in> set (filter (\<lambda>e. e = Toast_Entered z \<or> e = Toast_Left z) evs)"
    by (simp add: transitions_for_def)
  then show ?thesis
    by simp
qed

text \<open>
  C8, as stated, fails on the hook and on the backend handler: a latitude of 100 and a
  longitude of 200 are evaluated like any other position. The hook enters the zone centred
  there, changing both sets and the stored alerts; the handler upserts the location and
  issues the alert insert.
\<close>

theorem out_of_range_position_is_evaluated:
  "useEffect_run
     \<lparr>c_userLocation = Some \<lparr>loc_lat = 100, loc_lng = 200\<rparr>, c_userId = ''TID-1'',
      c_username = ''ann'', c_now = 5,
      c_dangerZones = [\<lparr>zone_id = ''Z1'', zone_name = ''Nowhere'', zone_lat = 100, zone_lng = 200,
          zone_radius = 50, zone_level = Level_low\<rparr>]\<rparr>
     (hook_init [])
   = (\<lparr>notifiedZones = {''TID-1-Z1''}, adminNotified = {''TID-1-Z1''},
       dangerZoneAlerts =
         [\<lparr>da_id = (''TID-1-Z1'', 5), da_touristId = ''TID-1'', da_username = ''ann'',
           da_zoneName = ''Nowhere'', da_zoneLevel = Level_low, da_timestamp = 5,
           da_location = \<lparr>loc_lat = 100, loc_lng = 200\<rparr>, da_type = ''danger_zone_entry''\<rparr>]\<rparr>,
      [Toast_Entered \<lparr>zone_id = ''Z1'', zone_name = ''Nowhere'', zone_lat = 100, zone_lng = 200,
          zone_radius = 50, zone_level = Level_low\<rparr>,
       Admin_Alert ''TID-1'' \<lparr>zone_id = ''Z1'', zone_name = ''Nowhere'', zone_lat = 100, zone_lng = 200,
          zone_radius = 50, zone_level = Level_low\<rparr>])
   \<and> post_api_locations
       \<lparr>b_user_id = ''u1'', b_tourist_id = ''TID-1'', b_lat = 100, b_lng = 200\<rparr>
       (Inr \<lparr>ld_username = None\<rparr>)
       (Some [\<lparr>zr_name = ''Nowhere'', zr_lat = 100, zr_lng = 200, zr_radius = 50, zr_level = ''low''\<rparr>])
     = (Json_success \<lparr>ld_username = None\<rparr>,
        [Upsert_user_location ''u1'' ''TID-1'' 100 200,
         Select_danger_zones,
         Insert_alert \<lparr>ar_user_id = ''u1'', ar_tourist_id = ''TID-1'', ar_username = ''Unknown'',
           ar_status = ''danger'', ar_alert_type = ''entered_danger_zone'', ar_lat = 100,
           ar_lng = 200, ar_zone_name = ''Nowhere'', ar_zone_level = ''low''\<rparr>])"
  by (simp add: useEffect_run_def zone_callback_def isInZone_def calculateDistance_self
      hook_init_def zoneKey_def Let_def post_api_locations_def calculateDistance_server_self
      entered_alert_def)

text \<open>
  C8, amended: no implementation checks the coordinate ranges, and there is no
  validation error. For a location with latitude outside [-90, 90] or longitude outside
  [-180, 180] the hook evaluates every zone of the list (ids pairwise distinct) as for
  any other position: after the run a zone's key is in the notified set if and only if
  the position is in the zone, an entered zone has its entry toast and a left zone its
  exit toast. For such coordinates the handler, when the upsert succeeds, answers with
  success and issues the upsert of the coordinates as received, the zone query and one
  alert insert for every zone that contains the position; when the upsert fails it
  answers with status 500 after the upsert alone, and it answers with status 500 in no
  other case.
\<close>

theorem no_coordinate_validation:
  "((loc_lat loc < - 90 \<or> 90 < loc_lat loc \<or> loc_lng loc < - 180 \<or> 180 < loc_lng loc)
     \<and> distinct (map zone_id zones)
    \<longrightarrow> (let r = useEffect_run \<lparr>c_userLocation = Some loc, c_userId = userId,
                      c_username = username, c_now = now, c_dangerZones = zones\<rparr> st
         in (\<forall>z\<in>set zones. zoneKey userId z \<in> notifiedZones (fst r) \<longleftrightarrow> isInZone loc z)
          \<and> (\<forall>z\<in>set zones. isInZone loc z \<and> zoneKey userId z \<notin> notifiedZones st
                \<longrightarrow> Toast_Entered z \<in> set (snd r))
          \<and> (\<forall>z\<in>set zones. \<not> isInZone loc z \<and> zoneKey userId z \<in> notifiedZones st
                \<longrightarrow> Toast_Left z \<in> set (snd r))))
   \<and> ((b_lat body < - 90 \<or> 90 < b_lat body \<or> b_lng body < - 180 \<or> 180 < b_lng body)
    \<longrightarrow> post_api_locations body (Inr data) (Some rows)
          = (Json_success data,
             [Upsert_user_location (b_user_id body) (b_tourist_id body) (b_lat body) (b_lng body),
              Select_danger_zones] @
             map (\<lambda>z. Insert_alert (entered_alert body data z))
               (filter (\<lambda>z. calculateDistance_server (b_lat body) (b_lng body) (zr_lat z) (zr_lng z)
                                \<le> zr_radius z) rows))
        \<and> post_api_locations body (Inl err) zones_result
          = (Status_500 err,
             [Upsert_user_location (b_user_id body) (b_tourist_id body) (b_lat body) (b_lng body)])
        \<and> (\<forall>e. fst (post_api_locations body upsert_result zones_result) = Status_500 e
              \<longrightarrow> upsert_result = Inl e))"
proof -
  have hook: "(\<forall>z\<in>set zones. zoneKey userId z
                  \<in> notifiedZones (fst (forEach_zone loc userId username now zones st))
                \<longleftrightarrow> isInZone loc z)
          \<and> (\<forall>z\<in>set zones. isInZone loc z \<and> zoneKey userId z \<notin> notifiedZones st
                \<longrightarrow> Toast_Entered z \<in> set (snd (forEach_zone loc userId username now zones st)))
          \<and> (\<forall>z\<in>set zones. \<not> isInZone loc z \<and> zoneKey userId z \<in> notifiedZones st
                \<longrightarrow> Toast_Left z \<in> set (snd (forEach_zone loc userId username now zones st)))"
    if d: "distinct (map zone_id zones)"
  proof (intro conjI ballI impI)
    fix z assume z: "z \<in> set zones"
    show "zoneKey userId z \<in> notifiedZones (fst (forEach_zone loc userId username now zones st))
            \<longleftrightarrow> isInZone loc z"
      using d z by (rule forEach_zone_notified)
  next
    fix z assume z: "z \<in> set zones"
      and "isInZone loc z \<and> zoneKey userId z \<notin> notifiedZones st"
    then have "transitions_for z (snd (forEach_zone loc userId username now zones st))
                 = [Toast_Entered z]"
      using forEach_zone_transitions [OF d z, of loc userId username now st] by simp
    then show "Toast_Entered z \<in> set (snd (forEach_zone loc userId username now zones st))"
      by (rule transitions_for_member)
  next
    fix z assume z: "z \<in> set zones"
      and "\<not> isInZone loc z \<and> zoneKey userId z \<in> notifiedZones st"
    then have "transitions_for z (snd (forEach_zone loc userId username now zones st))
                 = [Toast_Left z]"
      using forEach_zone_transitions [OF d z, of loc userId username now st] by simp
    then show "Toast_Left z \<in> set (snd (forEach_zone loc userId username now zones st))"
      by (rule transitions_for_member)
  qed
  have ok: "post_api_locations body (Inr data) (Some rows)
          = (Json_success data,
             [Upsert_user_location (b_user_id body) (b_tourist_id body) (b_lat body) (b_lng body),
              Select_danger_zones] @
             map (\<lambda>z. Insert_alert (entered_alert body data z))
               (filter (\<lambda>z. calculateDistance_server (b_lat body) (b_lng body) (zr_lat z) (zr_lng z)
                                \<le> zr_radius z) rows))"
    by (simp add: post_api_locations_def zone_loop_eq)
  have fail: "post_api_locations body (Inl err) zones_result
          = (Status_500 err,
             [Upsert_user_location (b_user_id body) (b_tourist_id body) (b_lat body) (b_lng body)])"
    by (simp add: post_api_locations_def)
  have only: "\<forall>e. fst (post_api_locations body upsert_result zones_result) = Status_500 e
              \<longrightarrow> upsert_result = Inl e"
    by (cases upsert_result) (simp_all add: post_api_locations_def)
  from hook ok fail only show ?thesis
    by (simp add: useEffect_run_def Let_def)
qed

theorem no_coordinate_validation_witness:
  "(90::real) < loc_lat \<lparr>loc_lat = 100, loc_lng = 200\<rparr>
   \<and> zoneKey ''TID-1'' \<lparr>zone_id = ''Z1'', zone_name = ''Nowhere'', zone_lat = 100, zone_lng = 200,
          zone_radius = 50, zone_level = Level_low\<rparr>
     \<in> notifiedZones (fst (useEffect_run
          \<lparr>c_userLocation = Some \<lparr>loc_lat = 100, loc_lng = 200\<rparr>, c_userId = ''TID-1'',
           c_username = ''ann'', c_now = 5,
           c_dangerZones = [\<lparr>zone_id = ''Z1'', zone_name = ''Nowhere'', zone_lat = 100,
              zone_lng = 200, zone_radius = 50, zone_level = Level_low\<rparr>]\<rparr>
          (hook_init [])))
   \<and> Toast_Entered \<lparr>zone_id = ''Z1'', zone_name = ''Nowhere'', zone_lat = 100, zone_lng = 200,
          zone_radius = 50, zone_level = Level_low\<rparr>
     \<in> set (snd (useEffect_run
          \<lparr>c_userLocation = Some \<lparr>loc_lat = 100, loc_lng = 200\<rparr>, c_userId = ''TID-1'',
           c_username = ''ann'', c_now = 5,
           c_dangerZones = [\<lparr>zone_id = ''Z1'', zone_name = ''Nowhere'', zone_lat = 100,
              zone_lng = 200, zone_radius = 50, zone_level = Level_low\<rparr>]\<rparr>
          (hook_init [])))"
  using no_coordinate_validation [where loc = "\<lparr>loc_lat = 100, loc_lng = 200\<rparr>"
      and userId = "''TID-1''" and username = "''ann''" and now = 5 and st = "hook_init []"
      and zones = "[\<lparr>zone_id = ''Z1'', zone_name = ''Nowhere'', zone_lat = 100,
              zone_lng = 200, zone_radius = 50, zone_level = Level_low\<rparr>]", THEN conjunct1]
  by (simp add: Let_def isInZone_def calculateDistance_self hook_init_def)

end
